theory Spec2Isabelle
  imports Complex_Main "HOL-Library.Word"
begin

unbundle bit_operations_syntax

section \<open>JavaScript values\<close>

text \<open>
  The values that reach the code from JSON bodies and option objects. A property that is
  absent (\<open>undefined\<close>) is \<open>None\<close> of \<open>json option\<close>. A finite number is modelled as a
  real, without rounding. \<open>JPosInfinity\<close> and \<open>JNegInfinity\<close> are the two infinities, which
  \<open>JSON.parse\<close> gives for a numeral beyond the range of a double such as \<open>1e999\<close>.
  \<open>NaN\<close>, which \<open>JSON.parse\<close> never gives, is outside the model.
\<close>

datatype json =
    JNull
  | JBool bool
  | JNum real
  | JPosInfinity
  | JNegInfinity
  | JStr string
  | JArr "json list"
  | JObj "(string \<times> json) list"

text \<open>JavaScript truthiness, as \<open>if (v)\<close>, \<open>!v\<close> and \<open>v || d\<close> test it.\<close>

fun truthy :: "json option \<Rightarrow> bool" where
  "truthy None = False"
| "truthy (Some JNull) = False"
| "truthy (Some (JBool b)) = b"
| "truthy (Some (JNum r)) = (r \<noteq> 0)"
| "truthy (Some JPosInfinity) = True"
| "truthy (Some JNegInfinity) = True"
| "truthy (Some (JStr s)) = (s \<noteq> [])"
| "truthy (Some (JArr xs)) = True"
| "truthy (Some (JObj fs)) = True"

text \<open>\<open>v || d\<close> with a default \<open>d\<close> that is a value.\<close>

definition js_or :: "json option \<Rightarrow> json \<Rightarrow> json" where
  "js_or v d = (case v of None \<Rightarrow> d | Some x \<Rightarrow> if truthy (Some x) then x else d)"

text \<open>\<open>v || d\<close> on a numeric option: an absent number and \<open>0\<close> are falsy.\<close>

definition num_or :: "real option \<Rightarrow> real \<Rightarrow> real" where
  "num_or v d = (case v of None \<Rightarrow> d | Some x \<Rightarrow> if x \<noteq> 0 then x else d)"

text \<open>The exceptions that the modelled code raises or lets through.\<close>

datatype js_error = TypeError | WriteError

section \<open>SensorManager\<close>

text \<open>The object handed to the constructor; every property may be absent.\<close>

record sm_options =
  opt_detectionDistance :: "real option"
  opt_presenceTimeout :: "real option"
  opt_distanceCheckInterval :: "real option"
  opt_potentiometerPollingInterval :: "real option"
  opt_potentiometerThreshold :: "real option"
  opt_distanceSmoothing :: "json option"
  opt_smoothingFactor :: "real option"
  opt_minValidDistance :: "real option"
  opt_maxValidDistance :: "real option"
  opt_debugMode :: "json option"

record sm_config =
  detectionDistance :: real
  presenceTimeout :: real
  distanceCheckInterval :: real
  potentiometerPollingInterval :: real
  potentiometerThreshold :: real
  distanceSmoothing :: json
  smoothingFactor :: real
  minValidDistance :: real
  maxValidDistance :: real
  debugMode :: json

text \<open>
  A timer made by \<open>setTimeout\<close>: the instant it is due and whether it is still pending
  (neither fired nor cleared). The callback of the only timer of the class is fixed, see
  \<open>fire_due\<close> below.
\<close>

record timeout =
  fires_at :: real
  pending :: bool

datatype sm_event =
    DistanceUpdate real real bool
  | PresenceDetected real real bool
  | PresenceTimeout bool
  | DetectionDistanceChanged real
  | PresenceTimeoutChanged real
  | ConfigurationUpdated sm_config
  | PotentiometerChanged real
  | SensorError

text \<open>
  The fields of the object; \<open>emitted\<close> is the log of the events passed to \<open>emit\<close>, oldest
  first. The third component of \<open>PresenceDetected\<close> and the component of
  \<open>PresenceTimeout\<close> is the \<open>forced\<close> flag of the payload. The field \<open>gpioController\<close> is
  set by \<open>initialize\<close> alone, which ends by setting \<open>initialized\<close>: the controller is there
  exactly when \<open>initialized\<close> is true. The handles of the two polling intervals are not
  fields of the model: the calls that the intervals make are calls of a run, below.
\<close>

record sensor_manager =
  config :: sm_config
  presenceTimer :: "timeout option"
  currentDistance :: real
  smoothedDistance :: real
  lastPotentiometerValue :: real
  objectPresent :: bool
  initialized :: bool
  distanceHistory :: "real list"
  maxHistoryLength :: nat
  emitted :: "sm_event list"

definition SensorManager :: "sm_options \<Rightarrow> sensor_manager" where
  "SensorManager opts =
     \<lparr> config =
         \<lparr> detectionDistance = num_or (opt_detectionDistance opts) 100,
           presenceTimeout = num_or (opt_presenceTimeout opts) 30000,
           distanceCheckInterval = num_or (opt_distanceCheckInterval opts) 500,
           potentiometerPollingInterval = num_or (opt_potentiometerPollingInterval opts) 1000,
           potentiometerThreshold = num_or (opt_potentiometerThreshold opts) 5,
           distanceSmoothing = js_or (opt_distanceSmoothing opts) (JBool True),
           smoothingFactor = num_or (opt_smoothingFactor opts) 0.3,
           minValidDistance = num_or (opt_minValidDistance opts) 10,
           maxValidDistance = num_or (opt_maxValidDistance opts) 300,
           debugMode = js_or (opt_debugMode opts) (JBool False) \<rparr>,
       presenceTimer = None,
       currentDistance = 999,
       smoothedDistance = 999,
       lastPotentiometerValue = 50,
       objectPresent = False,
       initialized = False,
       distanceHistory = [],
       maxHistoryLength = 5,
       emitted = [] \<rparr>"

text \<open>
  \<open>applySmoothingFilter\<close>: the reading is pushed on the history, the oldest entry is
  shifted out when the history is longer than \<open>maxHistoryLength\<close>, and the result is the
  reading itself when the history then holds one entry, the moving average otherwise.
  The result comes with the object, whose history has changed.
\<close>

definition applySmoothingFilter :: "real \<Rightarrow> sensor_manager \<Rightarrow> real \<times> sensor_manager" where
  "applySmoothingFilter newDistance s =
     (let pushed = distanceHistory s @ [newDistance];
          hist = (if length pushed > maxHistoryLength s then tl pushed else pushed);
          s1 = s\<lparr>distanceHistory := hist\<rparr>
      in if length hist = 1 then (newDistance, s1)
         else
           (let factor = smoothingFactor (config s1);
                previousSmoothed =
                  (if smoothedDistance s1 \<noteq> 0 then smoothedDistance s1 else newDistance)
            in (factor * newDistance + (1 - factor) * previousSmoothed, s1)))"

text \<open>\<open>handleDistanceChange\<close>; the console output of debug mode is not modelled.\<close>

definition handleDistanceChange :: "real \<Rightarrow> sensor_manager \<Rightarrow> sensor_manager" where
  "handleDistanceChange rawDistance s =
     (if rawDistance < minValidDistance (config s) \<or> rawDistance > maxValidDistance (config s)
      then s
      else
        (let s1 = s\<lparr>currentDistance := rawDistance\<rparr>;
             s2 = (if truthy (Some (distanceSmoothing (config s1)))
                   then (case applySmoothingFilter rawDistance s1 of
                           (v, s') \<Rightarrow> s'\<lparr>smoothedDistance := v\<rparr>)
                   else s1\<lparr>smoothedDistance := rawDistance\<rparr>)
         in s2\<lparr>emitted := emitted s2 @
              [DistanceUpdate rawDistance (smoothedDistance s2)
                 (smoothedDistance s2 \<le> detectionDistance (config s2))]\<rparr>))"

text \<open>
  The delay Node.js gives a timer: a delay outside \<open>[1, 2^31 - 1]\<close> milliseconds is
  replaced by 1.
\<close>

definition timer_delay :: "real \<Rightarrow> real" where
  "timer_delay d = (if 1 \<le> d \<and> d \<le> 2147483647 then d else 1)"

text \<open>
  \<open>resetPresenceTimer\<close>, called at the instant \<open>now\<close> (milliseconds). The old timer, when
  there is one, is cleared and the field is overwritten by the new timer, so the field
  always holds the only timer of the object that can still fire.
\<close>

definition resetPresenceTimer :: "real \<Rightarrow> sensor_manager \<Rightarrow> sensor_manager" where
  "resetPresenceTimer now s =
     (let s1 = (case presenceTimer s of
                  None \<Rightarrow> s
                | Some t \<Rightarrow> s\<lparr>presenceTimer := Some (t\<lparr>pending := False\<rparr>)\<rparr>)
      in s1\<lparr>presenceTimer :=
              Some \<lparr> fires_at = now + timer_delay (presenceTimeout (config s1)),
                     pending = True \<rparr>\<rparr>)"

definition checkPresenceLogic :: "real \<Rightarrow> sensor_manager \<Rightarrow> sensor_manager" where
  "checkPresenceLogic now s =
     (let isWithinRange = (smoothedDistance s \<le> detectionDistance (config s))
      in if isWithinRange \<and> \<not> objectPresent s then
           resetPresenceTimer now
             (s\<lparr>objectPresent := True,
                emitted := emitted s @
                  [PresenceDetected (smoothedDistance s) (detectionDistance (config s)) False]\<rparr>)
         else if isWithinRange \<and> objectPresent s then resetPresenceTimer now s
         else s)"

definition forcePresenceDetection :: "real \<Rightarrow> sensor_manager \<Rightarrow> sensor_manager" where
  "forcePresenceDetection now s =
     (if \<not> objectPresent s then
        resetPresenceTimer now
          (s\<lparr>objectPresent := True,
             emitted := emitted s @
               [PresenceDetected (smoothedDistance s) (detectionDistance (config s)) True]\<rparr>)
      else s)"

definition forcePresenceTimeout :: "sensor_manager \<Rightarrow> sensor_manager" where
  "forcePresenceTimeout s =
     (if objectPresent s then
        (let s1 = s\<lparr>objectPresent := False\<rparr>;
             s2 = (case presenceTimer s1 of None \<Rightarrow> s1 | Some t \<Rightarrow> s1\<lparr>presenceTimer := None\<rparr>)
         in s2\<lparr>emitted := emitted s2 @ [PresenceTimeout True]\<rparr>)
      else s)"

text \<open>
  The two setters. \<open>setDetectionDistance\<close> also passes the distance on to the GPIO
  controller, which is another object and not part of this state.
\<close>

definition setDetectionDistance :: "real \<Rightarrow> sensor_manager \<Rightarrow> sensor_manager" where
  "setDetectionDistance distance s =
     (let d = max 10 (min 400 distance)
      in s\<lparr>config := (config s)\<lparr>detectionDistance := d\<rparr>,
           emitted := emitted s @ [DetectionDistanceChanged d]\<rparr>)"

definition setPresenceTimeout :: "real \<Rightarrow> sensor_manager \<Rightarrow> sensor_manager" where
  "setPresenceTimeout t s =
     (let v = max 1000 t
      in s\<lparr>config := (config s)\<lparr>presenceTimeout := v\<rparr>,
           emitted := emitted s @ [PresenceTimeoutChanged v]\<rparr>)"

text \<open>
  \<open>Object.assign(this.config, newConfig)\<close>: every property that the update object has
  replaces the setting, whatever its value. The update object is modelled like the
  constructor's: a property is absent or holds a value of the setting's type.
\<close>

definition assign_config :: "sm_config \<Rightarrow> sm_options \<Rightarrow> sm_config" where
  "assign_config c newConfig =
     \<lparr> detectionDistance =
         (case opt_detectionDistance newConfig of None \<Rightarrow> detectionDistance c | Some v \<Rightarrow> v),
       presenceTimeout =
         (case opt_presenceTimeout newConfig of None \<Rightarrow> presenceTimeout c | Some v \<Rightarrow> v),
       distanceCheckInterval =
         (case opt_distanceCheckInterval newConfig of
            None \<Rightarrow> distanceCheckInterval c | Some v \<Rightarrow> v),
       potentiometerPollingInterval =
         (case opt_potentiometerPollingInterval newConfig of
            None \<Rightarrow> potentiometerPollingInterval c | Some v \<Rightarrow> v),
       potentiometerThreshold =
         (case opt_potentiometerThreshold newConfig of
            None \<Rightarrow> potentiometerThreshold c | Some v \<Rightarrow> v),
       distanceSmoothing =
         (case opt_distanceSmoothing newConfig of None \<Rightarrow> distanceSmoothing c | Some v \<Rightarrow> v),
       smoothingFactor =
         (case opt_smoothingFactor newConfig of None \<Rightarrow> smoothingFactor c | Some v \<Rightarrow> v),
       minValidDistance =
         (case opt_minValidDistance newConfig of None \<Rightarrow> minValidDistance c | Some v \<Rightarrow> v),
       maxValidDistance =
         (case opt_maxValidDistance newConfig of None \<Rightarrow> maxValidDistance c | Some v \<Rightarrow> v),
       debugMode =
         (case opt_debugMode newConfig of None \<Rightarrow> debugMode c | Some v \<Rightarrow> v) \<rparr>"

text \<open>
  \<open>updateConfiguration\<close>. A new \<open>distanceCheckInterval\<close> restarts the distance
  monitoring, and \<open>startDistanceMonitoring\<close> calls the GPIO controller: without a
  controller the call raises, after the assignment and before anything else. The result
  is the exception, if any, and the object as the call leaves it.
\<close>

definition updateConfiguration ::
  "sm_options \<Rightarrow> sensor_manager \<Rightarrow> js_error option \<times> sensor_manager" where
  "updateConfiguration newConfig s =
     (let oldConfig = config s;
          s1 = s\<lparr>config := assign_config (config s) newConfig\<rparr>
      in if (case opt_distanceCheckInterval newConfig of
               None \<Rightarrow> False
             | Some v \<Rightarrow> v \<noteq> distanceCheckInterval oldConfig) \<and> \<not> initialized s1
         then (Some TypeError, s1)
         else
           (let s2 = (case opt_detectionDistance newConfig of
                        None \<Rightarrow> s1 | Some v \<Rightarrow> setDetectionDistance v s1);
                s3 = (case opt_presenceTimeout newConfig of
                        None \<Rightarrow> s2 | Some v \<Rightarrow> setPresenceTimeout v s2)
            in (None, s3\<lparr>emitted := emitted s3 @ [ConfigurationUpdated (config s3)]\<rparr>)))"

text \<open>\<open>cleanup\<close>: the intervals are stopped, the timer is cleared, the history is emptied.\<close>

definition cleanup :: "sensor_manager \<Rightarrow> sensor_manager" where
  "cleanup s = s\<lparr>presenceTimer := None, distanceHistory := []\<rparr>"

text \<open>
  \<open>initialize\<close>: the controller is stored, the listeners and the two intervals are set
  up.
\<close>

definition SensorManager_initialize :: "sensor_manager \<Rightarrow> sensor_manager" where
  "SensorManager_initialize s = s\<lparr>initialized := True\<rparr>"

text \<open>
  The body of the potentiometer interval, once the controller has given the value, and
  the listener that passes on an error of the controller.
\<close>

definition checkPotentiometer :: "real \<Rightarrow> sensor_manager \<Rightarrow> sensor_manager" where
  "checkPotentiometer currentValue s =
     (if \<bar>currentValue - lastPotentiometerValue s\<bar> \<ge> potentiometerThreshold (config s)
      then s\<lparr>lastPotentiometerValue := currentValue,
             emitted := emitted s @ [PotentiometerChanged currentValue]\<rparr>
      else s)"

definition relay_error :: "sensor_manager \<Rightarrow> sensor_manager" where
  "relay_error s = s\<lparr>emitted := emitted s @ [SensorError]\<rparr>"

subsection \<open>The event loop around the object\<close>

text \<open>
  The callback that \<open>resetPresenceTimer\<close> hands to \<open>setTimeout\<close> runs when the timer is
  pending and due: it clears \<open>objectPresent\<close> and emits \<open>presenceTimeout\<close>. A timer due
  at the instant of a call runs before the call.
\<close>

definition fire_due :: "real \<Rightarrow> sensor_manager \<Rightarrow> sensor_manager" where
  "fire_due now s =
     (case presenceTimer s of
        None \<Rightarrow> s
      | Some t \<Rightarrow>
          if pending t \<and> fires_at t \<le> now
          then s\<lparr>presenceTimer := Some (t\<lparr>pending := False\<rparr>),
                 objectPresent := False,
                 emitted := emitted s @ [PresenceTimeout False]\<rparr>
          else s)"

text \<open>
  What the event loop can call on the object, each call at an instant: the listeners,
  the bodies of the two intervals, and every method that changes a field of the model.
  \<open>getStatus\<close> and \<open>getConfiguration\<close> build a new object from the fields and change
  nothing; the methods that start and stop the two intervals change the handles of the
  intervals only. A call of \<open>updateConfiguration\<close> that raises leaves the object as it
  was when the exception came.
\<close>

datatype sm_call =
    Reading real
  | Check
  | ForceDetection
  | ForceTimeout
  | SetDetectionDistance real
  | SetPresenceTimeout real
  | UpdateConfiguration sm_options
  | Cleanup
  | Initialize
  | Potentiometer real
  | ControllerError
  | ApplySmoothingFilter real
  | ResetPresenceTimer

fun perform :: "sm_call \<Rightarrow> real \<Rightarrow> sensor_manager \<Rightarrow> sensor_manager" where
  "perform (Reading d) now s = handleDistanceChange d s"
| "perform Check now s = checkPresenceLogic now s"
| "perform ForceDetection now s = forcePresenceDetection now s"
| "perform ForceTimeout now s = forcePresenceTimeout s"
| "perform (SetDetectionDistance d) now s = setDetectionDistance d s"
| "perform (SetPresenceTimeout t) now s = setPresenceTimeout t s"
| "perform (UpdateConfiguration newConfig) now s = snd (updateConfiguration newConfig s)"
| "perform Cleanup now s = cleanup s"
| "perform Initialize now s = SensorManager_initialize s"
| "perform (Potentiometer v) now s = checkPotentiometer v s"
| "perform ControllerError now s = relay_error s"
| "perform (ApplySmoothingFilter d) now s = snd (applySmoothingFilter d s)"
| "perform ResetPresenceTimer now s = resetPresenceTimer now s"

definition step :: "real \<times> sm_call \<Rightarrow> sensor_manager \<Rightarrow> sensor_manager" where
  "step tc s = perform (snd tc) (fst tc) (fire_due (fst tc) s)"

text \<open>A run: the calls in the order the event loop makes them, each with its instant.\<close>

fun run :: "(real \<times> sm_call) list \<Rightarrow> sensor_manager \<Rightarrow> sensor_manager" where
  "run [] s = s"
| "run (tc # rest) s = run rest (step tc s)"

subsection \<open>Notions the statements about the class use\<close>

text \<open>The events emitted between an earlier state and a later one.\<close>

definition new_events :: "sensor_manager \<Rightarrow> sensor_manager \<Rightarrow> sm_event list" where
  "new_events s s' = drop (length (emitted s)) (emitted s')"

text \<open>The empty options object, \<open>new SensorManager({})\<close>.\<close>

definition no_options :: sm_options where
  "no_options =
     \<lparr> opt_detectionDistance = None, opt_presenceTimeout = None,
       opt_distanceCheckInterval = None, opt_potentiometerPollingInterval = None,
       opt_potentiometerThreshold = None, opt_distanceSmoothing = None,
       opt_smoothingFactor = None, opt_minValidDistance = None,
       opt_maxValidDistance = None, opt_debugMode = None \<rparr>"

text \<open>
  The default options, a reading of 20, and then
  \<open>updateConfiguration({distanceSmoothing: false})\<close>.
\<close>

definition unsmoothed_state :: sensor_manager where
  "unsmoothed_state =
     run [(0, Reading 20),
          (100, UpdateConfiguration (no_options\<lparr>opt_distanceSmoothing := Some (JBool False)\<rparr>))]
       (SensorManager no_options)"

text \<open>The calls that assign the \<open>distanceSmoothing\<close> setting.\<close>

fun assigns_smoothing :: "sm_call \<Rightarrow> bool" where
  "assigns_smoothing (UpdateConfiguration newConfig) = (opt_distanceSmoothing newConfig \<noteq> None)"
| "assigns_smoothing c = False"

text \<open>The test of \<open>checkPresenceLogic\<close>: the smoothed distance is within the detection distance.\<close>

definition in_range :: "sensor_manager \<Rightarrow> bool" where
  "in_range s = (smoothedDistance s \<le> detectionDistance (config s))"

text \<open>
  A run that keeps the smoothed distance within range: it is within range before the
  first call and after every call. The calls considered are readings and presence checks.
\<close>

fun reading_or_check :: "sm_call \<Rightarrow> bool" where
  "reading_or_check (Reading d) = True"
| "reading_or_check Check = True"
| "reading_or_check c = False"

fun within_range :: "(real \<times> sm_call) list \<Rightarrow> sensor_manager \<Rightarrow> bool" where
  "within_range [] s = in_range s"
| "within_range (tc # rest) s = (in_range s \<and> within_range rest (step tc s))"

text \<open>
  Every call of a run comes before the instant \<open>due\<close> at which the pending timer fires,
  where each presence check moves that instant to \<open>D\<close> milliseconds after itself.
\<close>

fun checks_in_time :: "real \<Rightarrow> real \<Rightarrow> (real \<times> sm_call) list \<Rightarrow> bool" where
  "checks_in_time D due [] = True"
| "checks_in_time D due (tc # rest) =
     (fst tc < due \<and> checks_in_time D (if snd tc = Check then fst tc + D else due) rest)"

fun is_timeout :: "sm_event \<Rightarrow> bool" where
  "is_timeout (PresenceTimeout f) = True"
| "is_timeout e = False"

text \<open>
  Presence detected at 500 ms after a reading of 50, with the default options and with a
  presence timeout of 100 ms.
\<close>

definition present_state :: sensor_manager where
  "present_state = run [(0, Reading 50), (500, Check)] (SensorManager no_options)"

definition short_timeout_state :: sensor_manager where
  "short_timeout_state =
     run [(0, Reading 50), (500, Check)]
       (SensorManager (no_options\<lparr>opt_presenceTimeout := Some 100\<rparr>))"

section \<open>GPIOController\<close>

text \<open>
  The bitwise operators of JavaScript work on the 32-bit two's complement reading of
  their operands, and a shift uses the low five bits of its count only.
\<close>

definition js_shl :: "int \<Rightarrow> int \<Rightarrow> int" where
  "js_shl a b = sint (push_bit (nat (b mod 32)) (word_of_int a :: 32 word))"

definition js_bor :: "int \<Rightarrow> int \<Rightarrow> int" where
  "js_bor a b = sint ((word_of_int a :: 32 word) OR word_of_int b)"

text \<open>\<open>Math.round\<close>: the nearest integer, a half rounded up.\<close>

definition Math_round :: "real \<Rightarrow> int" where
  "Math_round x = \<lfloor>x + 1 / 2\<rfloor>"

datatype gpio_event = DistanceChanged real | GpioError

text \<open>
  The fields that both versions of the class share. Of the configuration only
  \<open>neopixelCount\<close> and \<open>debugMode\<close> are kept: the pin numbers and device names reach
  the native libraries only. \<open>render_throws\<close> is not a field of the object: it says
  whether the native \<open>render\<close> call raises.
\<close>

record gpio_core =
  neopixelCount :: nat
  gpio_debugMode :: bool
  gpio_initialized :: bool
  mockMode :: bool
  currentLedIntensity :: real
  gpio_currentDistance :: real
  startTime :: int
  endTime :: int
  render_throws :: bool
  gpio_emitted :: "gpio_event list"

text \<open>
  \<open>calculateDistance\<close>, the same text in both versions. The ticks are the 32-bit
  microsecond counter of pigpio, held in JavaScript numbers; a tick of 0 is falsy.
\<close>

definition calculateDistance :: "'a gpio_core_scheme \<Rightarrow> 'a gpio_core_scheme" where
  "calculateDistance s =
     (if startTime s \<noteq> 0 \<and> endTime s \<noteq> 0 then
        (let timeDiff0 = endTime s - startTime s;
             timeDiff = (if timeDiff0 < 0 then timeDiff0 + js_shl 1 32 else timeDiff0);
             distance = real_of_int (timeDiff * 34300) / (2 * 1000000);
             s1 = (if distance \<ge> 2 \<and> distance \<le> 400
                   then s\<lparr>gpio_currentDistance := distance,
                          gpio_emitted := gpio_emitted s @ [DistanceChanged distance]\<rparr>
                   else s)
         in s1\<lparr>startTime := 0, endTime := 0\<rparr>)
      else s)"

text \<open>The echo pin's interrupt handler: a rising edge starts the timing, a falling edge ends it.\<close>

definition echo_interrupt :: "int \<Rightarrow> int \<Rightarrow> 'a gpio_core_scheme \<Rightarrow> 'a gpio_core_scheme" where
  "echo_interrupt level tick s =
     (if level = 1 then s\<lparr>startTime := tick\<rparr>
      else calculateDistance (s\<lparr>endTime := tick\<rparr>))"

text \<open>
  The distance of the claim about tick wraparound, written from its words:
  \<open>(((endTime - startTime) mod 2^32) * 34300) / 2000000\<close>.
\<close>

definition wrapped_distance :: "int \<Rightarrow> int \<Rightarrow> real" where
  "wrapped_distance start_tick end_tick = real_of_int (((end_tick - start_tick) mod 2 ^ 32) * 34300) / 2000000"

text \<open>
  A controller whose echo started at tick 4294967000, 296 microseconds before the
  counter wraps.
\<close>

definition rollover_state :: gpio_core where
  "rollover_state =
     \<lparr> neopixelCount = 30, gpio_debugMode = False, gpio_initialized = True, mockMode = False,
       currentLedIntensity = 0, gpio_currentDistance = 999,
       startTime = 4294967000, endTime = 0, render_throws = False, gpio_emitted = [] \<rparr>"

text \<open>
  The colour value of \<open>setStripColor\<close>, \<open>(actualR << 16) | (actualG << 8) | actualB\<close>,
  as the \<open>Uint32Array\<close> stores it.
\<close>

definition pack_color :: "int \<Rightarrow> int \<Rightarrow> int \<Rightarrow> 32 word" where
  "pack_color actualR actualG actualB =
     word_of_int (js_bor (js_bor (js_shl actualR 16) (js_shl actualG 8)) actualB)"

text \<open>
  The loop \<open>for (i = 0; i < n; i++) pixels[i] = v\<close> on a typed array, which ignores a
  write beyond its length.
\<close>

definition assign_each :: "nat \<Rightarrow> 'p \<Rightarrow> 'p list \<Rightarrow> 'p list" where
  "assign_each n v ps = fold (\<lambda>i qs. if i < length qs then qs[i := v] else qs) [0..<n] ps"

text \<open>The three channels of a packed colour.\<close>

definition red_channel :: "32 word \<Rightarrow> nat" where
  "red_channel px = unat (drop_bit 16 px AND 255)"
definition green_channel :: "32 word \<Rightarrow> nat" where
  "green_channel px = unat (drop_bit 8 px AND 255)"
definition blue_channel :: "32 word \<Rightarrow> nat" where
  "blue_channel px = unat (px AND 255)"

subsection \<open>The version on a \<open>Uint32Array\<close> of packed colours\<close>

record gpio_native = gpio_core +
  pixels :: "32 word list option"
  rendered :: "32 word list list"

record gpio_options =
  opt_neopixelCount :: "nat option"
  opt_gpio_debugMode :: "json option"

datatype gpio_error = LibrariesMissing | InitFailed

datatype hw_fault = NoFault | SensorFault | StripFault

definition GPIOController :: "gpio_options \<Rightarrow> bool \<Rightarrow> gpio_error + gpio_native" where
  "GPIOController opts libraries_load =
     (let s = \<lparr> neopixelCount = (case opt_neopixelCount opts of
                                     None \<Rightarrow> 30 | Some n \<Rightarrow> if n \<noteq> 0 then n else 30),
                 gpio_debugMode = truthy (opt_gpio_debugMode opts),
                 gpio_initialized = False,
                 mockMode = False,
                 currentLedIntensity = 0,
                 gpio_currentDistance = 999,
                 startTime = 0,
                 endTime = 0,
                 render_throws = False,
                 gpio_emitted = [],
                 pixels = None,
                 rendered = [] \<rparr>
      in if libraries_load then Inr s
         else if gpio_debugMode s then Inr (s\<lparr>mockMode := True\<rparr>)
         else Inl LibrariesMissing)"

definition clearAllLEDs :: "gpio_native \<Rightarrow> gpio_native" where
  "clearAllLEDs s =
     (if \<not> gpio_initialized s \<or> mockMode s then s
      else (case pixels s of
              None \<Rightarrow> s
            | Some ps \<Rightarrow>
                (let qs = map (\<lambda>_. 0) ps; s1 = s\<lparr>pixels := Some qs\<rparr>
                 in if render_throws s1 then s1 else s1\<lparr>rendered := rendered s1 @ [qs]\<rparr>)))"

definition initialize :: "hw_fault \<Rightarrow> gpio_native \<Rightarrow> gpio_error + gpio_native" where
  "initialize fault s =
     (if mockMode s then Inr (s\<lparr>gpio_initialized := True\<rparr>)
      else (case fault of
              SensorFault \<Rightarrow> Inl InitFailed
            | StripFault \<Rightarrow> Inl InitFailed
            | NoFault \<Rightarrow>
                Inr ((clearAllLEDs (s\<lparr>pixels := Some (replicate (neopixelCount s) 0)\<rparr>))
                       \<lparr>gpio_initialized := True\<rparr>)))"

definition setStripColor :: "int \<Rightarrow> int \<Rightarrow> int \<Rightarrow> real \<Rightarrow> gpio_native \<Rightarrow> gpio_native" where
  "setStripColor red green blue intensity s =
     (if \<not> gpio_initialized s \<or> mockMode s then s
      else
        (let actualR = Math_round (real_of_int red * intensity / 100);
             actualG = Math_round (real_of_int green * intensity / 100);
             actualB = Math_round (real_of_int blue * intensity / 100);
             color = pack_color actualR actualG actualB
         in case pixels s of
              None \<Rightarrow> s\<lparr>gpio_emitted := gpio_emitted s @ [GpioError]\<rparr>
            | Some ps \<Rightarrow>
                (let qs = assign_each (neopixelCount s) color ps; s1 = s\<lparr>pixels := Some qs\<rparr>
                 in if render_throws s1 then s1\<lparr>gpio_emitted := gpio_emitted s1 @ [GpioError]\<rparr>
                    else s1\<lparr>rendered := rendered s1 @ [qs]\<rparr>)))"

definition setLEDIntensity :: "real \<Rightarrow> gpio_native \<Rightarrow> gpio_native" where
  "setLEDIntensity intensity s =
     (if \<not> gpio_initialized s then s
      else
        (let clampedIntensity = max 0 (min 100 intensity);
             s1 = s\<lparr>currentLedIntensity := clampedIntensity\<rparr>
         in if mockMode s1 then s1
            else if clampedIntensity = 0 then clearAllLEDs s1
            else setStripColor 255 255 255 clampedIntensity s1))"

definition turnOffLEDs :: "gpio_native \<Rightarrow> gpio_native" where
  "turnOffLEDs s = setLEDIntensity 0 s"

text \<open>
  What \<open>initialize\<close> leaves behind and every method keeps: an initialized controller
  outside mock mode has its pixel array, one entry for each LED.
\<close>

definition strip_ready :: "gpio_native \<Rightarrow> bool" where
  "strip_ready s =
     (if gpio_initialized s \<and> \<not> mockMode s
      then (case pixels s of None \<Rightarrow> False | Some ps \<Rightarrow> length ps = neopixelCount s)
      else True)"

subsection \<open>The version on an array of \<open>{r, g, b}\<close> objects\<close>

text \<open>
  An entry of the pixel array: the number 0 that the mock strip is filled with, or an
  object with the three channels.
\<close>

datatype led = LedZero | LedRgb int int int

record gpio_rgb = gpio_core +
  neopixelMockMode :: bool
  led_pixels :: "led list option"
  led_rendered :: "led list list"

definition GPIOController_rgb :: "gpio_options \<Rightarrow> bool \<Rightarrow> bool \<Rightarrow> gpio_rgb" where
  "GPIOController_rgb opts pigpio_loads ws281x_loads =
     \<lparr> neopixelCount = (case opt_neopixelCount opts of
                           None \<Rightarrow> 10 | Some n \<Rightarrow> if n \<noteq> 0 then n else 10),
       gpio_debugMode = truthy (opt_gpio_debugMode opts),
       gpio_initialized = False,
       mockMode = (\<not> pigpio_loads),
       currentLedIntensity = 0,
       gpio_currentDistance = 999,
       startTime = 0,
       endTime = 0,
       render_throws = False,
       gpio_emitted = [],
       neopixelMockMode = (\<not> ws281x_loads),
       led_pixels = None,
       led_rendered = [] \<rparr>"

text \<open>
  The loop \<open>for (i = 0; i < neopixelCount; i++) pixels[i] = v\<close> on an ordinary array,
  which grows when it is shorter than the count.
\<close>

definition assign_first :: "nat \<Rightarrow> 'p \<Rightarrow> 'p list \<Rightarrow> 'p list" where
  "assign_first n v ps = replicate n v @ drop n ps"

definition clearAllLEDs_rgb :: "gpio_rgb \<Rightarrow> gpio_rgb" where
  "clearAllLEDs_rgb s =
     (if \<not> gpio_initialized s \<or> neopixelMockMode s then s
      else (case led_pixels s of
              None \<Rightarrow> s
            | Some ps \<Rightarrow>
                (let qs = assign_first (neopixelCount s) (LedRgb 0 0 0) ps;
                     s1 = s\<lparr>led_pixels := Some qs\<rparr>
                 in if render_throws s1 then s1 else s1\<lparr>led_rendered := led_rendered s1 @ [qs]\<rparr>)))"

definition setupMockNeoPixelStrip :: "gpio_rgb \<Rightarrow> gpio_rgb" where
  "setupMockNeoPixelStrip s = s\<lparr>led_pixels := Some (replicate (neopixelCount s) LedZero)\<rparr>"

definition setupNeoPixelStrip :: "hw_fault \<Rightarrow> gpio_rgb \<Rightarrow> gpio_rgb" where
  "setupNeoPixelStrip fault s =
     (if fault = StripFault then setupMockNeoPixelStrip (s\<lparr>neopixelMockMode := True\<rparr>)
      else clearAllLEDs_rgb (s\<lparr>led_pixels := Some (replicate (neopixelCount s) (LedRgb 0 0 0))\<rparr>))"

definition initialize_rgb :: "hw_fault \<Rightarrow> gpio_rgb \<Rightarrow> gpio_error + gpio_rgb" where
  "initialize_rgb fault s =
     (if mockMode s \<and> neopixelMockMode s then Inr (s\<lparr>gpio_initialized := True\<rparr>)
      else if \<not> mockMode s \<and> fault = SensorFault then Inl InitFailed
      else
        (let s1 = (if \<not> neopixelMockMode s then setupNeoPixelStrip fault s
                   else setupMockNeoPixelStrip s)
         in Inr (s1\<lparr>gpio_initialized := True\<rparr>)))"

definition setStripColor_rgb :: "int \<Rightarrow> int \<Rightarrow> int \<Rightarrow> real \<Rightarrow> gpio_rgb \<Rightarrow> gpio_rgb" where
  "setStripColor_rgb red green blue intensity s =
     (if \<not> gpio_initialized s \<or> neopixelMockMode s then s
      else
        (let actualR = Math_round (real_of_int red * intensity / 100);
             actualG = Math_round (real_of_int green * intensity / 100);
             actualB = Math_round (real_of_int blue * intensity / 100)
         in case led_pixels s of
              None \<Rightarrow> s\<lparr>gpio_emitted := gpio_emitted s @ [GpioError]\<rparr>
            | Some ps \<Rightarrow>
                (let qs = assign_first (neopixelCount s) (LedRgb actualR actualG actualB) ps;
                     s1 = s\<lparr>led_pixels := Some qs\<rparr>
                 in if render_throws s1 then s1\<lparr>gpio_emitted := gpio_emitted s1 @ [GpioError]\<rparr>
                    else s1\<lparr>led_rendered := led_rendered s1 @ [qs]\<rparr>)))"

definition setLEDIntensity_rgb :: "real \<Rightarrow> gpio_rgb \<Rightarrow> gpio_rgb" where
  "setLEDIntensity_rgb intensity s =
     (if \<not> gpio_initialized s then s
      else
        (let clampedIntensity = max 0 (min 100 intensity);
             s1 = s\<lparr>currentLedIntensity := clampedIntensity\<rparr>
         in if neopixelMockMode s1 then s1
            else if clampedIntensity = 0 then clearAllLEDs_rgb s1
            else setStripColor_rgb 255 255 255 clampedIntensity s1))"

definition turnOffLEDs_rgb :: "gpio_rgb \<Rightarrow> gpio_rgb" where
  "turnOffLEDs_rgb s = setLEDIntensity_rgb 0 s"

definition strip_ready_rgb :: "gpio_rgb \<Rightarrow> bool" where
  "strip_ready_rgb s =
     (if gpio_initialized s \<and> \<not> neopixelMockMode s
      then (case led_pixels s of None \<Rightarrow> False | Some ps \<Rightarrow> length ps = neopixelCount s)
      else True)"

text \<open>The empty options object.\<close>

definition no_gpio_options :: gpio_options where
  "no_gpio_options = \<lparr> opt_neopixelCount = None, opt_gpio_debugMode = None \<rparr>"

text \<open>The channel value of white at a percentage, as \<open>setStripColor\<close> computes it.\<close>

definition scaled_white :: "real \<Rightarrow> int" where
  "scaled_white p = Math_round (255 * p / 100)"

text \<open>
  The controllers after the constructor and \<open>initialize\<close> with the default options:
  with every library and no fault, and, for the second version, without \<open>rpi-ws281x\<close>.
\<close>

definition ready_native :: gpio_native where
  "ready_native =
     \<lparr> neopixelCount = 30, gpio_debugMode = False, gpio_initialized = True, mockMode = False,
       currentLedIntensity = 0, gpio_currentDistance = 999, startTime = 0, endTime = 0,
       render_throws = False, gpio_emitted = [],
       pixels = Some (replicate 30 0), rendered = [] \<rparr>"

definition ready_rgb :: gpio_rgb where
  "ready_rgb =
     \<lparr> neopixelCount = 10, gpio_debugMode = False, gpio_initialized = True, mockMode = False,
       currentLedIntensity = 0, gpio_currentDistance = 999, startTime = 0, endTime = 0,
       render_throws = False, gpio_emitted = [],
       neopixelMockMode = False, led_pixels = Some (replicate 10 (LedRgb 0 0 0)),
       led_rendered = [] \<rparr>"

definition mock_strip :: gpio_rgb where
  "mock_strip =
     \<lparr> neopixelCount = 10, gpio_debugMode = False, gpio_initialized = True, mockMode = False,
       currentLedIntensity = 0, gpio_currentDistance = 999, startTime = 0, endTime = 0,
       render_throws = False, gpio_emitted = [],
       neopixelMockMode = True, led_pixels = Some (replicate 10 LedZero),
       led_rendered = [] \<rparr>"

section \<open>The configuration server of the node helper\<close>

datatype js_type = TUndefined | TObject | TBoolean | TNumber | TString

text \<open>\<open>typeof\<close>; \<open>null\<close> and arrays are objects.\<close>

fun typeof :: "json option \<Rightarrow> js_type" where
  "typeof None = TUndefined"
| "typeof (Some JNull) = TObject"
| "typeof (Some (JBool b)) = TBoolean"
| "typeof (Some (JNum r)) = TNumber"
| "typeof (Some JPosInfinity) = TNumber"
| "typeof (Some JNegInfinity) = TNumber"
| "typeof (Some (JStr s)) = TString"
| "typeof (Some (JArr xs)) = TObject"
| "typeof (Some (JObj fs)) = TObject"

text \<open>The decimal numeral of an array index, the name of the property that holds the entry.\<close>

fun decimal :: "nat \<Rightarrow> string" where
  "decimal n =
     (if n < 10 then [char_of (48 + n)]
      else decimal (n div 10) @ [char_of (48 + n mod 10)])"

text \<open>
  The own enumerable properties of a value, in order: what the spread \<open>{...v}\<close> copies.
  In an object the first entry for a name is the property of that name.
\<close>

fun own_properties :: "json \<Rightarrow> (string \<times> json) list" where
  "own_properties (JObj fs) = fs"
| "own_properties (JArr xs) = zip (map decimal [0..<length xs]) xs"
| "own_properties (JStr s) = zip (map decimal [0..<length s]) (map (\<lambda>c. JStr [c]) s)"
| "own_properties v = []"

text \<open>
  \<open>v[name]\<close> for the property names the helper reads, none of which a prototype
  defines: the own property or \<open>undefined\<close>. Reading a property of \<open>null\<close> raises; every
  read below comes after a call of \<open>hasOwnProperty\<close> on the same value, which raises first.
\<close>

definition get_property :: "json \<Rightarrow> string \<Rightarrow> json option" where
  "get_property v name = map_of (own_properties v) name"

text \<open>
  \<open>v.hasOwnProperty(name)\<close>. On \<open>null\<close> the lookup of the method raises. A parsed object
  with an own property called \<open>hasOwnProperty\<close> hides the method behind a value that is no
  function, and the call raises. An array also owns \<open>length\<close>.
\<close>

definition hasOwnProperty :: "json \<Rightarrow> string \<Rightarrow> js_error + bool" where
  "hasOwnProperty v name =
     (case v of
        JNull \<Rightarrow> Inl TypeError
      | JObj fs \<Rightarrow>
          if map_of fs ''hasOwnProperty'' \<noteq> None then Inl TypeError
          else Inr (map_of fs name \<noteq> None)
      | JArr xs \<Rightarrow> Inr (name = ''length'' \<or> get_property v name \<noteq> None)
      | JStr s \<Rightarrow> Inr (name = ''length'' \<or> get_property v name \<noteq> None)
      | _ \<Rightarrow> Inr False)"

text \<open>The two loops of \<open>validateConfiguration\<close>; \<open>Inr True\<close> when no field made it return.\<close>

fun check_boolean_fields :: "json \<Rightarrow> string list \<Rightarrow> js_error + bool" where
  "check_boolean_fields cfg [] = Inr True"
| "check_boolean_fields cfg (field # rest) =
     (case hasOwnProperty cfg field of
        Inl e \<Rightarrow> Inl e
      | Inr own \<Rightarrow>
          if own \<and> typeof (get_property cfg field) \<noteq> TBoolean then Inr False
          else check_boolean_fields cfg rest)"

text \<open>
  A value of type number is never \<open>NaN\<close> here: \<open>JSON.parse\<close> does not produce it. An
  infinity is a number and passes the loop.
\<close>

fun check_numeric_fields :: "json \<Rightarrow> string list \<Rightarrow> js_error + bool" where
  "check_numeric_fields cfg [] = Inr True"
| "check_numeric_fields cfg (field # rest) =
     (case hasOwnProperty cfg field of
        Inl e \<Rightarrow> Inl e
      | Inr own \<Rightarrow>
          if own \<and> typeof (get_property cfg field) \<noteq> TNumber then Inr False
          else check_numeric_fields cfg rest)"

text \<open>
  \<open>v !== undefined && (v < lo || v > hi)\<close>. The numeric loop has returned for every
  property that is present and no number, so only numbers are compared.
\<close>

definition out_of_range :: "json option \<Rightarrow> real \<Rightarrow> real \<Rightarrow> bool" where
  "out_of_range v lo hi =
     (case v of
        Some (JNum x) \<Rightarrow> x < lo \<or> x > hi
      | Some JPosInfinity \<Rightarrow> True
      | Some JNegInfinity \<Rightarrow> True
      | _ \<Rightarrow> False)"

definition validateConfiguration :: "json option \<Rightarrow> js_error + bool" where
  "validateConfiguration body =
     (case body of
        None \<Rightarrow> Inr False
      | Some cfg \<Rightarrow>
          if typeof (Some cfg) \<noteq> TObject then Inr False
          else
            (case check_boolean_fields cfg
                    [''showWeather'', ''showTime'', ''showCalendar'', ''showCompliments'',
                     ''debugMode''] of
               Inl e \<Rightarrow> Inl e
             | Inr False \<Rightarrow> Inr False
             | Inr True \<Rightarrow>
                 (case check_numeric_fields cfg
                         [''ledIntensity'', ''motionTimeout'', ''detectionDistance''] of
                    Inl e \<Rightarrow> Inl e
                  | Inr False \<Rightarrow> Inr False
                  | Inr True \<Rightarrow>
                      if out_of_range (get_property cfg ''ledIntensity'') 0 100 then Inr False
                      else if out_of_range (get_property cfg ''detectionDistance'') 10 400
                      then Inr False
                      else Inr True)))"

text \<open>
  The configuration file: missing, there but not readable, or holding a text. The type of
  the text is left open, with \<open>JSON.stringify\<close> and \<open>JSON.parse\<close> as parameters of the
  functions that use them (\<open>parse\<close> gives \<open>None\<close> where \<open>JSON.parse\<close> raises).
\<close>

datatype 't config_file = Missing | Unreadable | Holding 't

datatype hw_call =
    HwSetDetectionDistance "json option"
  | HwSetPresenceTimeout "json option"
  | HwSetLEDIntensity "json option"

text \<open>
  The helper: the file at \<open>configPath\<close> and whether it can be written, whether both
  hardware objects exist, the helper's own fields, the instances to notify, and the
  logs of the calls made on the hardware objects and of the socket notifications sent.
\<close>

record 't node_helper =
  config_file :: "'t config_file"
  file_writable :: bool
  hardware_present :: bool
  helper_objectPresent :: bool
  helper_ledIntensity :: "json option"
  moduleInstances :: "string list"
  hardware_calls :: "hw_call list"
  notifications :: "(string \<times> json \<times> string) list"

definition default_configuration :: json where
  "default_configuration =
     JObj [(''showWeather'', JBool True), (''showTime'', JBool True),
           (''showCalendar'', JBool True), (''showCompliments'', JBool False),
           (''ledIntensity'', JNum 50), (''motionTimeout'', JNum 30000),
           (''detectionDistance'', JNum 100), (''distanceSmoothing'', JBool True),
           (''debugMode'', JBool False)]"

definition loadConfiguration :: "('t \<Rightarrow> json option) \<Rightarrow> 't node_helper \<Rightarrow> json" where
  "loadConfiguration parse h =
     (case config_file h of
        Missing \<Rightarrow> default_configuration
      | Unreadable \<Rightarrow> default_configuration
      | Holding text \<Rightarrow>
          (case parse text of None \<Rightarrow> default_configuration | Some v \<Rightarrow> v))"

text \<open>Setting a property: in place when the object has it, at the end otherwise.\<close>

fun set_property :: "string \<Rightarrow> json \<Rightarrow> (string \<times> json) list \<Rightarrow> (string \<times> json) list" where
  "set_property name v [] = [(name, v)]"
| "set_property name v (p # ps) =
     (if fst p = name then (name, v) # ps else p # set_property name v ps)"

definition configToSave :: "json \<Rightarrow> string \<Rightarrow> json" where
  "configToSave cfg now = JObj (set_property ''lastUpdated'' (JStr now) (own_properties cfg))"

definition saveConfiguration ::
  "(json \<Rightarrow> 't) \<Rightarrow> string \<Rightarrow> json \<Rightarrow> 't node_helper \<Rightarrow> js_error + 't node_helper" where
  "saveConfiguration stringify now cfg h =
     (if file_writable h
      then Inr (h\<lparr>config_file := Holding (stringify (configToSave cfg now))\<rparr>)
      else Inl WriteError)"

definition applyHardwareConfiguration ::
  "json \<Rightarrow> 't node_helper \<Rightarrow> js_error + 't node_helper" where
  "applyHardwareConfiguration cfg h =
     (if \<not> hardware_present h then Inr h
      else
        (case hasOwnProperty cfg ''detectionDistance'' of
           Inl e \<Rightarrow> Inl e
         | Inr own_distance \<Rightarrow>
            (let h1 = (if own_distance
                       then h\<lparr>hardware_calls := hardware_calls h @
                               [HwSetDetectionDistance (get_property cfg ''detectionDistance'')]\<rparr>
                       else h)
             in case hasOwnProperty cfg ''motionTimeout'' of
                  Inl e \<Rightarrow> Inl e
                | Inr own_timeout \<Rightarrow>
                   (let h2 = (if own_timeout
                              then h1\<lparr>hardware_calls := hardware_calls h1 @
                                      [HwSetPresenceTimeout (get_property cfg ''motionTimeout'')]\<rparr>
                              else h1)
                    in case hasOwnProperty cfg ''ledIntensity'' of
                         Inl e \<Rightarrow> Inl e
                       | Inr own_led \<Rightarrow>
                           if own_led then
                             (let h3 = h2\<lparr>helper_ledIntensity := get_property cfg ''ledIntensity''\<rparr>
                              in if helper_objectPresent h3
                                 then Inr (h3\<lparr>hardware_calls := hardware_calls h3 @
                                             [HwSetLEDIntensity (get_property cfg ''ledIntensity'')]\<rparr>)
                                 else Inr h3)
                           else Inr h2))))"

datatype response_text = Message string | ErrorMessage js_error

record http_response =
  status :: nat
  success :: bool
  reply :: response_text

definition notify_instances :: "json \<Rightarrow> 't node_helper \<Rightarrow> 't node_helper" where
  "notify_instances cfg h =
     h\<lparr>notifications := notifications h @
          map (\<lambda>instanceId. (''CONFIG_UPDATED'', cfg, instanceId)) (moduleInstances h)\<rparr>"

text \<open>
  The handler of \<open>POST /api/cfg\<close>; \<open>body\<close> is \<open>req.body\<close>. An exception anywhere in
  the handler is answered with status 500, after whatever the handler had done by then.
\<close>

definition post_config ::
  "(json \<Rightarrow> 't) \<Rightarrow> string \<Rightarrow> json option \<Rightarrow> 't node_helper \<Rightarrow> http_response \<times> 't node_helper" where
  "post_config stringify now body h =
     (case validateConfiguration body of
        Inl e \<Rightarrow> (\<lparr>status = 500, success = False, reply = ErrorMessage e\<rparr>, h)
      | Inr False \<Rightarrow>
          (\<lparr>status = 400, success = False, reply = Message ''Invalid configuration format''\<rparr>, h)
      | Inr True \<Rightarrow>
          (case body of
             None \<Rightarrow> (\<lparr>status = 500, success = False, reply = ErrorMessage TypeError\<rparr>, h)
           | Some newConfig \<Rightarrow>
               (case saveConfiguration stringify now newConfig h of
                  Inl e \<Rightarrow> (\<lparr>status = 500, success = False, reply = ErrorMessage e\<rparr>, h)
                | Inr h1 \<Rightarrow>
                    (case applyHardwareConfiguration newConfig h1 of
                       Inl e \<Rightarrow> (\<lparr>status = 500, success = False, reply = ErrorMessage e\<rparr>, h1)
                     | Inr h2 \<Rightarrow>
                         (\<lparr>status = 200, success = True,
                            reply = Message ''Configuration updated successfully''\<rparr>,
                          notify_instances newConfig h2)))))"

subsection \<open>The JSON text in the file\<close>

text \<open>
  The value that \<open>JSON.stringify\<close> writes for a value: the value itself with every
  infinity, at any depth, replaced by \<open>null\<close>. (It writes nothing else differently: no
  value here is \<open>undefined\<close> or a function, and a property called \<open>toJSON\<close> is no
  function.)
\<close>

primrec written_value :: "json \<Rightarrow> json" where
  "written_value JNull = JNull"
| "written_value (JBool b) = JBool b"
| "written_value (JNum r) = JNum r"
| "written_value JPosInfinity = JNull"
| "written_value JNegInfinity = JNull"
| "written_value (JStr s) = JStr s"
| "written_value (JArr xs) = JArr (map written_value xs)"
| "written_value (JObj fs) = JObj (map (map_prod id written_value) fs)"

text \<open>A value that holds an infinity, at any depth.\<close>

fun holds_infinity :: "json \<Rightarrow> bool" where
  "holds_infinity JPosInfinity = True"
| "holds_infinity JNegInfinity = True"
| "holds_infinity (JArr xs) = (\<exists>x \<in> set xs. holds_infinity x)"
| "holds_infinity (JObj fs) = (\<exists>x \<in> snd ` set fs. holds_infinity x)"
| "holds_infinity v = False"

text \<open>
  The text of the file, as far as the helper can tell one text from another: a JSON text,
  which stands here for the value that \<open>JSON.parse\<close> gives for it, or a text that
  \<open>JSON.parse\<close> rejects. The characters of a JSON text, which
  \<open>JSON.stringify(v, null, 2)\<close> lays out with an indentation of two blanks, are not
  modelled. \<open>JSON.stringify\<close> gives the JSON text of the written value, and \<open>JSON.parse\<close>
  reads a JSON text back as the value it stands for.
\<close>

datatype file_text = JsonText json | OtherText string

definition JSON_stringify :: "json \<Rightarrow> file_text" where
  "JSON_stringify v = JsonText (written_value v)"

fun JSON_parse :: "file_text \<Rightarrow> json option" where
  "JSON_parse (JsonText v) = Some v"
| "JSON_parse (OtherText t) = None"

subsection \<open>Helpers and configurations the statements use\<close>

text \<open>
  A helper without hardware and without a configuration file, once with the saved object
  itself as the text of the file and once with the texts above; and a configuration as
  \<open>GET /api/config\<close> returns it, with the \<open>lastUpdated\<close> of an earlier save, to which a
  \<open>motionTimeout\<close> of \<open>1e999\<close> has been added.
\<close>

definition fresh_helper :: "file_text node_helper" where
  "fresh_helper =
     \<lparr> config_file = Missing, file_writable = True, hardware_present = False,
       helper_objectPresent = False, helper_ledIntensity = Some (JNum 0),
       moduleInstances = [], hardware_calls = [], notifications = [] \<rparr>"

definition idle_helper :: "json node_helper" where
  "idle_helper =
     \<lparr> config_file = Missing, file_writable = True, hardware_present = False,
       helper_objectPresent = False, helper_ledIntensity = Some (JNum 0),
       moduleInstances = [], hardware_calls = [], notifications = [] \<rparr>"

definition stale_config :: json where
  "stale_config =
     JObj [(''showTime'', JBool False), (''motionTimeout'', JPosInfinity),
           (''lastUpdated'', JStr ''yesterday'')]"

section \<open>Messages to the Python application\<close>

text \<open>
  The child process as the helper sees it: the chunks written to its standard input,
  oldest first. \<open>write_throws\<close> is not a field: it says whether building or writing the
  message raises, which the \<open>try\<close> around them catches.
\<close>

record python_process =
  stdin_chunks :: "string list"
  write_throws :: bool

record python_helper =
  pythonProcess :: "python_process option"
  pythonAppReady :: bool

text \<open>
  The message object; \<open>JSON.stringify\<close> leaves out \<open>data\<close> when the configuration is
  \<open>undefined\<close>.
\<close>

definition config_update_message :: "json option \<Rightarrow> string \<Rightarrow> json" where
  "config_update_message cfg now =
     JObj ([(''type'', JStr ''config_update'')]
           @ (case cfg of None \<Rightarrow> [] | Some c \<Rightarrow> [(''data'', c)])
           @ [(''timestamp'', JStr now)])"

definition sendConfigurationToPython ::
  "(json \<Rightarrow> string) \<Rightarrow> string \<Rightarrow> json option \<Rightarrow> python_helper \<Rightarrow> bool \<times> python_helper" where
  "sendConfigurationToPython stringify now cfg h =
     (case pythonProcess h of
        None \<Rightarrow> (False, h)
      | Some p \<Rightarrow>
          if \<not> pythonAppReady h then (False, h)
          else if write_throws p then (False, h)
          else (True,
                h\<lparr>pythonProcess :=
                     Some (p\<lparr>stdin_chunks := stdin_chunks p @
                              [stringify (config_update_message cfg now) @ [CHR 0x0A]]\<rparr>)\<rparr>))"

text \<open>The chunks on the standard input of the helper's process, none without a process.\<close>

definition written :: "python_helper \<Rightarrow> string list" where
  "written h = (case pythonProcess h of None \<Rightarrow> [] | Some p \<Rightarrow> stdin_chunks p)"

text \<open>A stand-in for \<open>JSON.stringify\<close>, and a ready process whose standard input raises.\<close>

definition empty_text :: "json \<Rightarrow> string" where
  "empty_text v = ''{}''"

definition broken_pipe_helper :: python_helper where
  "broken_pipe_helper =
     \<lparr> pythonProcess = Some \<lparr> stdin_chunks = [], write_throws = True \<rparr>,
       pythonAppReady = True \<rparr>"

section \<open>The module's DOM\<close>
















section \<open>Facts about SensorManager\<close>

lemma run_append: "run (xs @ ys) s = run ys (run xs s)"
  by (induction xs arbitrary: s) simp_all

lemmas sm_defs = handleDistanceChange_def applySmoothingFilter_def checkPresenceLogic_def
  resetPresenceTimer_def forcePresenceDetection_def forcePresenceTimeout_def
  setDetectionDistance_def setPresenceTimeout_def fire_due_def
  cleanup_def SensorManager_initialize_def checkPotentiometer_def relay_error_def

lemmas eval_defs = no_options_def SensorManager_def step_def sm_defs updateConfiguration_def
  assign_config_def num_or_def js_or_def timer_delay_def in_range_def new_events_def Let_def

text \<open>What \<open>updateConfiguration\<close> leaves as it is, and what it does to the smoothing setting.\<close>

lemma assign_config_smoothing:
  "distanceSmoothing (assign_config c newConfig) =
     (case opt_distanceSmoothing newConfig of None \<Rightarrow> distanceSmoothing c | Some v \<Rightarrow> v)"
  by (simp add: assign_config_def)

lemma updateConfiguration_keeps:
  "maxHistoryLength (snd (updateConfiguration newConfig s)) = maxHistoryLength s"
  "objectPresent (snd (updateConfiguration newConfig s)) = objectPresent s"
  "presenceTimer (snd (updateConfiguration newConfig s)) = presenceTimer s"
  "smoothedDistance (snd (updateConfiguration newConfig s)) = smoothedDistance s"
  "distanceHistory (snd (updateConfiguration newConfig s)) = distanceHistory s"
  "distanceSmoothing (config (snd (updateConfiguration newConfig s))) =
     (case opt_distanceSmoothing newConfig of
        None \<Rightarrow> distanceSmoothing (config s) | Some v \<Rightarrow> v)"
  by (simp_all add: updateConfiguration_def setDetectionDistance_def setPresenceTimeout_def
        assign_config_smoothing Let_def split: option.splits)

lemma updateConfiguration_emitted:
  "\<exists>xs. emitted (snd (updateConfiguration newConfig s)) = emitted s @ xs"
  by (simp add: updateConfiguration_def setDetectionDistance_def setPresenceTimeout_def
        Let_def split: option.splits)

text \<open>No call changes \<open>maxHistoryLength\<close>, which the constructor sets to 5.\<close>

lemma step_history_limit: "maxHistoryLength (step tc s) = maxHistoryLength s"
  by (cases "snd tc";
      simp add: step_def sm_defs updateConfiguration_keeps Let_def split: option.splits prod.splits)

lemma run_history_limit: "maxHistoryLength (run cs s) = maxHistoryLength s"
  by (induction cs arbitrary: s) (simp_all add: step_history_limit)

lemma history_limit: "maxHistoryLength (run cs (SensorManager opts)) = 5"
  by (simp add: run_history_limit SensorManager_def)

lemma truthy_js_or_True: "truthy (Some (js_or v (JBool True)))"
  by (cases v) (simp_all add: js_or_def)

lemma filter_value:
  assumes "2 \<le> maxHistoryLength s"
  shows "fst (applySmoothingFilter d s) =
           (if distanceHistory s = [] then d
            else smoothingFactor (config s) * d +
                 (1 - smoothingFactor (config s)) *
                   (if smoothedDistance s = 0 then d else smoothedDistance s))"
proof (cases "distanceHistory s")
  case Nil
  with assms show ?thesis by (simp add: applySmoothingFilter_def)
next
  case (Cons x xs)
  with assms show ?thesis by (auto simp add: applySmoothingFilter_def Let_def)
qed

lemma handle_valid:
  assumes "minValidDistance (config s) \<le> d" and "d \<le> maxValidDistance (config s)"
    and "truthy (Some (distanceSmoothing (config s)))"
  shows "smoothedDistance (handleDistanceChange d s) = fst (applySmoothingFilter d s)"
    and "distanceHistory (handleDistanceChange d s) = distanceHistory (snd (applySmoothingFilter d s))"
  using assms by (simp_all add: handleDistanceChange_def applySmoothingFilter_def Let_def split: prod.splits)

lemma handle_unsmoothed:
  assumes "minValidDistance (config s) \<le> d" and "d \<le> maxValidDistance (config s)"
    and "\<not> truthy (Some (distanceSmoothing (config s)))"
  shows "smoothedDistance (handleDistanceChange d s) = d"
    and "distanceHistory (handleDistanceChange d s) = distanceHistory s"
  using assms by (simp_all add: handleDistanceChange_def Let_def)

lemma filter_pushes:
  assumes "1 \<le> maxHistoryLength s"
  shows "distanceHistory (snd (applySmoothingFilter d s)) \<noteq> []"
    and "last (distanceHistory (snd (applySmoothingFilter d s))) = d"
proof -
  have "distanceHistory (snd (applySmoothingFilter d s)) =
          (if length (distanceHistory s @ [d]) > maxHistoryLength s
           then tl (distanceHistory s @ [d]) else distanceHistory s @ [d])"
    by (simp add: applySmoothingFilter_def Let_def)
  moreover have "tl (distanceHistory s @ [d]) \<noteq> [] \<and> last (tl (distanceHistory s @ [d])) = d"
    if "length (distanceHistory s @ [d]) > maxHistoryLength s"
    using that assms by (cases "distanceHistory s") (simp_all add: last_tl)
  ultimately show "distanceHistory (snd (applySmoothingFilter d s)) \<noteq> []"
    and "last (distanceHistory (snd (applySmoothingFilter d s))) = d"
    by (simp_all split: if_splits)
qed

subsection \<open>Smoothing\<close>

text \<open>
  Claim C1, as the code has it. On a \<open>SensorManager\<close>, whose
  \<open>maxHistoryLength\<close> is 5 from the constructor on, a reading \<open>d\<close> within
  \<open>[minValidDistance, maxValidDistance]\<close> gives, while the \<open>distanceSmoothing\<close> setting is
  truthy, a smoothed distance of \<open>d\<close> itself when the history was empty, and of
  \<open>factor * d + (1 - factor) * previous\<close> when the history was not empty and the previous
  smoothed distance was not 0, with \<open>factor = smoothingFactor\<close> (0.3 unless the
  constructor was given another non-zero value). While the setting is falsy, which
  \<open>updateConfiguration\<close> can make it, the smoothed distance is \<open>d\<close>. What the filter does
  with a previous smoothed distance of 0 is left out of the statement.
\<close>

theorem smoothing_moving_average:
  assumes "maxHistoryLength s = 5"
    and "minValidDistance (config s) \<le> d" and "d \<le> maxValidDistance (config s)"
  shows "(truthy (Some (distanceSmoothing (config s))) \<and> distanceHistory s = []
            \<longrightarrow> smoothedDistance (handleDistanceChange d s) = d)
         \<and> (truthy (Some (distanceSmoothing (config s))) \<and> distanceHistory s \<noteq> []
              \<and> smoothedDistance s \<noteq> 0
            \<longrightarrow> smoothedDistance (handleDistanceChange d s) =
                  smoothingFactor (config s) * d
                  + (1 - smoothingFactor (config s)) * smoothedDistance s)
         \<and> (\<not> truthy (Some (distanceSmoothing (config s)))
            \<longrightarrow> smoothedDistance (handleDistanceChange d s) = d)
         \<and> smoothingFactor (config (SensorManager opts)) = num_or (opt_smoothingFactor opts) 0.3
         \<and> maxHistoryLength (run cs (SensorManager opts)) = 5"
proof -
  have lim: "2 \<le> maxHistoryLength s"
    using assms(1) by simp
  have on: "smoothedDistance (handleDistanceChange d s) = fst (applySmoothingFilter d s)"
    if "truthy (Some (distanceSmoothing (config s)))"
    using handle_valid(1) [OF assms(2) assms(3) that] .
  have off: "smoothedDistance (handleDistanceChange d s) = d"
    if "\<not> truthy (Some (distanceSmoothing (config s)))"
    using handle_unsmoothed(1) [OF assms(2) assms(3) that] .
  have "smoothingFactor (config (SensorManager opts)) = num_or (opt_smoothingFactor opts) 0.3"
    by (simp add: SensorManager_def)
  then show ?thesis
    using on off filter_value [OF lim, of d] history_limit [of cs opts] by simp
qed

text \<open>
  The theorem with the default options: the first reading 20 is taken as it is, the
  second reading 50 gives 0.3 * 50 + 0.7 * 20 = 29, and with smoothing switched off the
  reading 50 is taken as it is.
\<close>

theorem smoothing_moving_average_witness:
  "maxHistoryLength (SensorManager no_options) = 5
   \<and> minValidDistance (config (SensorManager no_options)) \<le> 20
   \<and> 20 \<le> maxValidDistance (config (SensorManager no_options))
   \<and> smoothedDistance (handleDistanceChange 20 (SensorManager no_options)) = 20
   \<and> maxHistoryLength (run [(0, Reading 20)] (SensorManager no_options)) = 5
   \<and> minValidDistance (config (run [(0, Reading 20)] (SensorManager no_options))) \<le> 50
   \<and> 50 \<le> maxValidDistance (config (run [(0, Reading 20)] (SensorManager no_options)))
   \<and> smoothedDistance (handleDistanceChange 50 (run [(0, Reading 20)] (SensorManager no_options))) = 29
   \<and> \<not> truthy (Some (distanceSmoothing (config unsmoothed_state)))
   \<and> smoothedDistance (handleDistanceChange 50 unsmoothed_state) = 50"
proof -
  let ?s0 = "SensorManager no_options"
  let ?s1 = "run [(0, Reading 20)] (SensorManager no_options)"
  have h0: "maxHistoryLength ?s0 = 5" "minValidDistance (config ?s0) \<le> 20"
    "20 \<le> maxValidDistance (config ?s0)"
    "truthy (Some (distanceSmoothing (config ?s0)))" "distanceHistory ?s0 = []"
    by (simp_all add: eval_defs)
  have h1: "maxHistoryLength ?s1 = 5" "minValidDistance (config ?s1) \<le> 50"
    "50 \<le> maxValidDistance (config ?s1)"
    "truthy (Some (distanceSmoothing (config ?s1)))" "distanceHistory ?s1 = [20]"
    "smoothedDistance ?s1 = 20" "smoothingFactor (config ?s1) = 0.3"
    by (simp_all add: eval_defs)
  have h2: "maxHistoryLength unsmoothed_state = 5"
    "minValidDistance (config unsmoothed_state) \<le> 50"
    "50 \<le> maxValidDistance (config unsmoothed_state)"
    "\<not> truthy (Some (distanceSmoothing (config unsmoothed_state)))"
    by (simp_all add: unsmoothed_state_def eval_defs)
  show ?thesis
    using smoothing_moving_average [OF h0(1) h0(2) h0(3)]
      smoothing_moving_average [OF h1(1) h1(2) h1(3)]
      smoothing_moving_average [OF h2(1) h2(2) h2(3)]
      h0 h1 h2
    by simp
qed

text \<open>
  Claim C1 as stated fails once \<open>updateConfiguration\<close> has switched smoothing off. After a
  reading of 20 and \<open>updateConfiguration({distanceSmoothing: false})\<close> the reading 50 is
  valid and the history is not empty, and the smoothed distance becomes 50, not
  \<open>0.3 * 50 + 0.7 * 20 = 29\<close>.
\<close>

theorem smoothing_switched_off_cex:
  "minValidDistance (config unsmoothed_state) \<le> 50
   \<and> 50 \<le> maxValidDistance (config unsmoothed_state)
   \<and> distanceHistory unsmoothed_state = [20]
   \<and> smoothedDistance (handleDistanceChange 50 unsmoothed_state) = 50
   \<and> smoothingFactor (config unsmoothed_state) * 50
        + (1 - smoothingFactor (config unsmoothed_state)) * smoothedDistance unsmoothed_state = 29"
  by (simp add: unsmoothed_state_def eval_defs)

text \<open>
  With a positive \<open>minValidDistance\<close> and a smoothing factor in \<open>[0, 1]\<close>, as the defaults
  are, a reading leaves a positive smoothed distance positive.
\<close>

lemma handle_keeps_positive:
  assumes "0 < minValidDistance (config s)" and "0 \<le> smoothingFactor (config s)"
    and "smoothingFactor (config s) \<le> 1" and "0 < smoothedDistance s"
  shows "0 < smoothedDistance (handleDistanceChange d s)"
proof (cases "d < minValidDistance (config s) \<or> d > maxValidDistance (config s)")
  case True
  then show ?thesis using assms(4) by (simp add: handleDistanceChange_def)
next
  case False
  then have d: "0 < d" using assms(1) by simp
  have "0 \<le> smoothingFactor (config s) * d" "0 \<le> (1 - smoothingFactor (config s)) * smoothedDistance s"
    using assms d by simp_all
  moreover have "0 < smoothingFactor (config s) * d \<or> 0 < (1 - smoothingFactor (config s)) * smoothedDistance s"
    using assms d by (cases "smoothingFactor (config s) = 0") simp_all
  ultimately have "0 < smoothingFactor (config s) * d + (1 - smoothingFactor (config s)) * smoothedDistance s"
    by linarith
  then show ?thesis
    using False d assms(4)
    by (simp add: handleDistanceChange_def applySmoothingFilter_def Let_def)
qed

text \<open>The calls that assign the \<open>distanceSmoothing\<close> setting.\<close>

lemma step_smoothing_setting:
  "distanceSmoothing (config (step (t, c) s)) =
     (case c of
        UpdateConfiguration newConfig \<Rightarrow>
          (case opt_distanceSmoothing newConfig of
             None \<Rightarrow> distanceSmoothing (config s) | Some v \<Rightarrow> v)
      | _ \<Rightarrow> distanceSmoothing (config s))"
  by (cases c;
      simp add: step_def sm_defs updateConfiguration_keeps Let_def split: option.splits prod.splits)

lemma run_smoothing_setting:
  assumes "list_all (\<lambda>tc. \<not> assigns_smoothing (snd tc)) cs"
  shows "distanceSmoothing (config (run cs s)) = distanceSmoothing (config s)"
  using assms
proof (induction cs arbitrary: s)
  case Nil
  show ?case by simp
next
  case (Cons tc cs)
  obtain t c where tc: "tc = (t, c)" by (cases tc)
  have "distanceSmoothing (config (step (t, c) s)) = distanceSmoothing (config s)"
    using Cons.prems tc
    by (cases c) (simp_all add: step_smoothing_setting split: option.splits)
  then show ?case using Cons tc by simp
qed

text \<open>
  Claim C9, as the code has it. Whatever the constructor is given for
  \<open>distanceSmoothing\<close>, the setting it stores is truthy: \<open>true\<close> when the option is absent or
  falsy (so also for \<open>false\<close>), the option's own value when that is truthy. No call but
  \<open>updateConfiguration\<close> with a \<open>distanceSmoothing\<close> property assigns the setting, and such
  a call assigns the property's value as it is. While the setting is truthy,
  \<open>handleDistanceChange\<close> takes the branch of \<open>applySmoothingFilter\<close> for every valid
  reading: the smoothed distance is the filter's result and the reading has gone into
  the history. While it is falsy, the smoothed distance is the raw reading and the
  history stays as it is.
\<close>

theorem constructor_cannot_disable_smoothing:
  "distanceSmoothing (config (SensorManager opts)) =
     (if truthy (opt_distanceSmoothing opts) then the (opt_distanceSmoothing opts) else JBool True)
   \<and> truthy (Some (distanceSmoothing (config (SensorManager opts))))
   \<and> (list_all (\<lambda>tc. \<not> assigns_smoothing (snd tc)) cs \<longrightarrow>
        truthy (Some (distanceSmoothing (config (run cs (SensorManager opts))))))
   \<and> distanceSmoothing (config (step (t, c) s)) =
       (case c of
          UpdateConfiguration newConfig \<Rightarrow>
            (case opt_distanceSmoothing newConfig of
               None \<Rightarrow> distanceSmoothing (config s) | Some v \<Rightarrow> v)
        | _ \<Rightarrow> distanceSmoothing (config s))
   \<and> (maxHistoryLength s = 5 \<and> minValidDistance (config s) \<le> d \<and> d \<le> maxValidDistance (config s)
        \<and> truthy (Some (distanceSmoothing (config s)))
      \<longrightarrow> smoothedDistance (handleDistanceChange d s) = fst (applySmoothingFilter d s)
          \<and> distanceHistory (handleDistanceChange d s)
              = distanceHistory (snd (applySmoothingFilter d s))
          \<and> last (distanceHistory (handleDistanceChange d s)) = d)
   \<and> (minValidDistance (config s) \<le> d \<and> d \<le> maxValidDistance (config s)
        \<and> \<not> truthy (Some (distanceSmoothing (config s)))
      \<longrightarrow> smoothedDistance (handleDistanceChange d s) = d
          \<and> distanceHistory (handleDistanceChange d s) = distanceHistory s)"
proof (intro conjI impI)
  show c: "distanceSmoothing (config (SensorManager opts)) =
     (if truthy (opt_distanceSmoothing opts) then the (opt_distanceSmoothing opts) else JBool True)"
    by (cases "opt_distanceSmoothing opts") (simp_all add: SensorManager_def js_or_def)
  show t: "truthy (Some (distanceSmoothing (config (SensorManager opts))))"
    by (simp add: SensorManager_def truthy_js_or_True)
  show "truthy (Some (distanceSmoothing (config (run cs (SensorManager opts)))))"
    if "list_all (\<lambda>tc. \<not> assigns_smoothing (snd tc)) cs"
    using run_smoothing_setting [OF that] t by simp
  show "distanceSmoothing (config (step (t, c) s)) =
       (case c of
          UpdateConfiguration newConfig \<Rightarrow>
            (case opt_distanceSmoothing newConfig of
               None \<Rightarrow> distanceSmoothing (config s) | Some v \<Rightarrow> v)
        | _ \<Rightarrow> distanceSmoothing (config s))"
    by (rule step_smoothing_setting)
next
  assume a: "maxHistoryLength s = 5 \<and> minValidDistance (config s) \<le> d
    \<and> d \<le> maxValidDistance (config s) \<and> truthy (Some (distanceSmoothing (config s)))"
  then have v: "minValidDistance (config s) \<le> d" "d \<le> maxValidDistance (config s)"
    "truthy (Some (distanceSmoothing (config s)))" and m: "1 \<le> maxHistoryLength s"
    by simp_all
  show "smoothedDistance (handleDistanceChange d s) = fst (applySmoothingFilter d s)"
    by (rule handle_valid(1) [OF v])
  show h: "distanceHistory (handleDistanceChange d s)
              = distanceHistory (snd (applySmoothingFilter d s))"
    by (rule handle_valid(2) [OF v])
  show "last (distanceHistory (handleDistanceChange d s)) = d"
    using h filter_pushes(2) [OF m, of d] by simp
next
  assume a: "minValidDistance (config s) \<le> d \<and> d \<le> maxValidDistance (config s)
        \<and> \<not> truthy (Some (distanceSmoothing (config s)))"
  then have v: "minValidDistance (config s) \<le> d" "d \<le> maxValidDistance (config s)"
    "\<not> truthy (Some (distanceSmoothing (config s)))"
    by simp_all
  show "smoothedDistance (handleDistanceChange d s) = d"
    by (rule handle_unsmoothed(1) [OF v])
  show "distanceHistory (handleDistanceChange d s) = distanceHistory s"
    by (rule handle_unsmoothed(2) [OF v])
qed

text \<open>
  The theorem with \<open>distanceSmoothing: false\<close> given to the constructor: the setting is
  \<open>true\<close> and the second reading is averaged; and with smoothing switched off later.
\<close>

theorem constructor_cannot_disable_smoothing_witness:
  "distanceSmoothing (config (SensorManager (no_options\<lparr>opt_distanceSmoothing := Some (JBool False)\<rparr>)))
     = JBool True
   \<and> truthy (Some (distanceSmoothing (config
        (run [(0, Reading 20)] (SensorManager (no_options\<lparr>opt_distanceSmoothing := Some (JBool False)\<rparr>))))))
   \<and> smoothedDistance (handleDistanceChange 50
        (run [(0, Reading 20)] (SensorManager (no_options\<lparr>opt_distanceSmoothing := Some (JBool False)\<rparr>))))
       = 29
   \<and> distanceHistory (handleDistanceChange 50
        (run [(0, Reading 20)] (SensorManager (no_options\<lparr>opt_distanceSmoothing := Some (JBool False)\<rparr>))))
       = [20, 50]
   \<and> \<not> truthy (Some (distanceSmoothing (config unsmoothed_state)))
   \<and> distanceHistory (handleDistanceChange 50 unsmoothed_state) = distanceHistory unsmoothed_state"
proof -
  let ?o = "no_options\<lparr>opt_distanceSmoothing := Some (JBool False)\<rparr>"
  let ?s = "run [(0, Reading 20)] (SensorManager ?o)"
  have o: "\<not> truthy (opt_distanceSmoothing ?o)" by simp
  have r: "list_all (\<lambda>tc. \<not> assigns_smoothing (snd tc)) [(0, Reading 20)]" by simp
  have h: "maxHistoryLength ?s = 5" "minValidDistance (config ?s) \<le> 50"
    "50 \<le> maxValidDistance (config ?s)"
    by (simp_all add: eval_defs)
  have f: "fst (applySmoothingFilter 50 ?s) = 29"
    "distanceHistory (snd (applySmoothingFilter 50 ?s)) = [20, 50]"
    by (simp_all add: eval_defs)
  have u: "minValidDistance (config unsmoothed_state) \<le> 50"
    "50 \<le> maxValidDistance (config unsmoothed_state)"
    "\<not> truthy (Some (distanceSmoothing (config unsmoothed_state)))"
    by (simp_all add: unsmoothed_state_def eval_defs)
  show ?thesis
    using constructor_cannot_disable_smoothing
        [where opts = ?o and cs = "[(0, Reading 20)]" and s = ?s and d = 50]
      constructor_cannot_disable_smoothing [where s = unsmoothed_state and d = 50]
      o r h f u
    by simp
qed

text \<open>
  Claim C9 as stated fails after \<open>updateConfiguration({distanceSmoothing: false})\<close>: the
  setting is \<open>false\<close>, and the valid reading 50, with a reading already in the history, is
  assigned to the smoothed distance as it is, where the filter would have given 29; the
  history is not touched.
\<close>

theorem smoothing_disabled_by_update_cex:
  "distanceSmoothing (config unsmoothed_state) = JBool False
   \<and> minValidDistance (config unsmoothed_state) \<le> 50
   \<and> 50 \<le> maxValidDistance (config unsmoothed_state)
   \<and> distanceHistory unsmoothed_state = [20]
   \<and> distanceHistory (handleDistanceChange 50 unsmoothed_state) = [20]
   \<and> smoothedDistance (handleDistanceChange 50 unsmoothed_state) = 50
   \<and> fst (applySmoothingFilter 50 unsmoothed_state) = 29"
  by (simp add: unsmoothed_state_def eval_defs)

subsection \<open>Presence\<close>

text \<open>
  Claim C2. For every state and instant, \<open>checkPresenceLogic\<close> emits exactly one event,
  \<open>presenceDetected\<close>, when the smoothed distance is at most \<open>detectionDistance\<close> and
  \<open>objectPresent\<close> was false, and emits nothing otherwise; after a call within range
  \<open>objectPresent\<close> is true and the presence timer is a fresh pending timer, due
  \<open>presenceTimeout\<close> milliseconds after the call.
\<close>

theorem presence_detected_iff:
  "new_events s (checkPresenceLogic now s) =
     (if smoothedDistance s \<le> detectionDistance (config s) \<and> \<not> objectPresent s
      then [PresenceDetected (smoothedDistance s) (detectionDistance (config s)) False]
      else [])
   \<and> ((\<exists>d t f. PresenceDetected d t f \<in> set (new_events s (checkPresenceLogic now s)))
        = (smoothedDistance s \<le> detectionDistance (config s) \<and> \<not> objectPresent s))
   \<and> objectPresent (checkPresenceLogic now s) =
        (if smoothedDistance s \<le> detectionDistance (config s) then True else objectPresent s)
   \<and> presenceTimer (checkPresenceLogic now s) =
        (if smoothedDistance s \<le> detectionDistance (config s)
         then Some \<lparr> fires_at = now + timer_delay (presenceTimeout (config s)), pending = True \<rparr>
         else presenceTimer s)"
  by (auto simp add: new_events_def checkPresenceLogic_def resetPresenceTimer_def Let_def
        split: option.splits)

lemma fire_due_emitted: "\<exists>xs. emitted (fire_due t s) = emitted s @ xs"
  by (simp add: fire_due_def split: option.splits)

lemma perform_emitted: "\<exists>xs. emitted (perform c t s) = emitted s @ xs"
  using updateConfiguration_emitted [of _ s]
  by (cases c; auto simp add: sm_defs Let_def split: option.splits prod.splits)

lemma step_emitted_prefix: "\<exists>xs. emitted (step tc s) = emitted s @ xs"
proof -
  obtain xs where "emitted (fire_due (fst tc) s) = emitted s @ xs"
    using fire_due_emitted by blast
  moreover obtain ys where
    "emitted (perform (snd tc) (fst tc) (fire_due (fst tc) s)) = emitted (fire_due (fst tc) s) @ ys"
    using perform_emitted by blast
  ultimately show ?thesis by (simp add: step_def)
qed

lemma run_emitted_prefix: "\<exists>xs. emitted (run cs s) = emitted s @ xs"
proof (induction cs arbitrary: s)
  case Nil
  show ?case by simp
next
  case (Cons tc cs)
  obtain xs where "emitted (step tc s) = emitted s @ xs"
    using step_emitted_prefix by blast
  moreover obtain ys where "emitted (run cs (step tc s)) = emitted (step tc s) @ ys"
    using Cons.IH by blast
  ultimately show ?case by simp
qed

lemma emitted_run: "emitted (run cs s) = emitted s @ new_events s (run cs s)"
proof -
  obtain xs where "emitted (run cs s) = emitted s @ xs"
    using run_emitted_prefix by blast
  then show ?thesis by (simp add: new_events_def)
qed

lemma step_keeps_presence:
  assumes "objectPresent s" and "presenceTimer s = Some tm" and "pending tm"
    and "in_range s" and "reading_or_check c" and "t < fires_at tm"
  shows "objectPresent (step (t, c) s)"
    and "\<exists>tm'. presenceTimer (step (t, c) s) = Some tm' \<and> pending tm'
           \<and> fires_at tm' = (if c = Check then t + timer_delay (presenceTimeout (config s))
                              else fires_at tm)"
    and "presenceTimeout (config (step (t, c) s)) = presenceTimeout (config s)"
    and "filter is_timeout (emitted (step (t, c) s)) = filter is_timeout (emitted s)"
  using assms
  by (cases c; simp add: step_def sm_defs in_range_def Let_def split: prod.splits)+

lemma run_keeps_presence:
  assumes "objectPresent s" and "presenceTimer s = Some tm" and "pending tm"
    and "list_all (\<lambda>tc. reading_or_check (snd tc)) cs"
    and "within_range cs s"
    and "checks_in_time (timer_delay (presenceTimeout (config s))) (fires_at tm) cs"
  shows "objectPresent (run cs s)
         \<and> filter is_timeout (emitted (run cs s)) = filter is_timeout (emitted s)"
  using assms
proof (induction cs arbitrary: s tm)
  case Nil
  then show ?case by simp
next
  case (Cons tc cs)
  obtain t c where tc: "tc = (t, c)" by (cases tc)
  from Cons.prems tc have c: "reading_or_check c" and t: "t < fires_at tm"
    and inr: "in_range s" by simp_all
  note st = step_keeps_presence [OF Cons.prems(1) Cons.prems(2) Cons.prems(3) inr c t]
  from st(2) obtain tm' where tm': "presenceTimer (step (t, c) s) = Some tm'" "pending tm'"
    "fires_at tm' = (if c = Check then t + timer_delay (presenceTimeout (config s)) else fires_at tm)"
    by blast
  have rest: "list_all (\<lambda>tc. reading_or_check (snd tc)) cs" "within_range cs (step (t, c) s)"
    using Cons.prems tc by simp_all
  have due: "checks_in_time (timer_delay (presenceTimeout (config (step (t, c) s)))) (fires_at tm') cs"
    using Cons.prems(6) tc tm'(3) st(3) by (cases "c = Check") simp_all
  have "objectPresent (run cs (step (t, c) s))
         \<and> filter is_timeout (emitted (run cs (step (t, c) s))) = filter is_timeout (emitted (step (t, c) s))"
    using Cons.IH [OF st(1) tm'(1) tm'(2) rest due] .
  then show ?case using st(4) tc by simp
qed

lemma absent_only_by_timer_or_force:
  assumes "objectPresent s" and "\<not> objectPresent (step (t, c) s)"
  shows "c = ForceTimeout \<or> (\<exists>tm. presenceTimer s = Some tm \<and> pending tm \<and> fires_at tm \<le> t)"
  using assms
  by (cases c;
      auto simp add: step_def sm_defs updateConfiguration_keeps Let_def
        split: option.splits prod.splits if_splits)

lemma in_range_check_restarts:
  "in_range s \<Longrightarrow> presenceTimer (checkPresenceLogic now s) =
     Some \<lparr> fires_at = now + timer_delay (presenceTimeout (config s)), pending = True \<rparr>"
  by (auto simp add: in_range_def checkPresenceLogic_def resetPresenceTimer_def Let_def
        split: option.splits)

text \<open>
  Claim C3, as the code has it. The delay of the presence timer is what Node.js makes of
  \<open>presenceTimeout\<close>: \<open>presenceTimeout\<close> milliseconds when that lies in \<open>[1, 2^31 - 1]\<close>, and
  1 millisecond otherwise. With \<open>objectPresent\<close> true and the timer pending, a run of
  readings and presence checks, throughout which the smoothed distance stays within
  \<open>detectionDistance\<close> and each call comes before the instant at which the timer is then
  due (each check puts that instant one delay after itself), emits no \<open>presenceTimeout\<close>
  and leaves \<open>objectPresent\<close> true. Every check within range restarts the timer, due one
  delay after the check. \<open>objectPresent\<close> turns false in a step only through
  \<open>forcePresenceTimeout\<close> or because the pending timer was due.
\<close>

theorem presence_debounce:
  "(objectPresent s \<and> presenceTimer s = Some tm \<and> pending tm
      \<and> list_all (\<lambda>tc. reading_or_check (snd tc)) cs \<and> within_range cs s
      \<and> checks_in_time (timer_delay (presenceTimeout (config s))) (fires_at tm) cs
    \<longrightarrow> objectPresent (run cs s) \<and> filter is_timeout (new_events s (run cs s)) = [])
   \<and> (in_range s \<longrightarrow> presenceTimer (checkPresenceLogic now s) =
         Some \<lparr> fires_at = now + timer_delay (presenceTimeout (config s)), pending = True \<rparr>)
   \<and> (objectPresent s \<and> \<not> objectPresent (step (t, c) s)
        \<longrightarrow> c = ForceTimeout \<or> (\<exists>tm. presenceTimer s = Some tm \<and> pending tm \<and> fires_at tm \<le> t))
   \<and> timer_delay (presenceTimeout (config s)) =
       (if 1 \<le> presenceTimeout (config s) \<and> presenceTimeout (config s) \<le> 2 ^ 31 - 1
        then presenceTimeout (config s) else 1)"
proof -
  have "objectPresent (run cs s) \<and> filter is_timeout (new_events s (run cs s)) = []"
    if h: "objectPresent s \<and> presenceTimer s = Some tm \<and> pending tm
      \<and> list_all (\<lambda>tc. reading_or_check (snd tc)) cs \<and> within_range cs s
      \<and> checks_in_time (timer_delay (presenceTimeout (config s))) (fires_at tm) cs"
  proof -
    have k: "objectPresent (run cs s)
         \<and> filter is_timeout (emitted (run cs s)) = filter is_timeout (emitted s)"
      using run_keeps_presence [of s tm cs] h by blast
    have "filter is_timeout (emitted (run cs s))
            = filter is_timeout (emitted s) @ filter is_timeout (new_events s (run cs s))"
      using emitted_run [of cs s] by (metis filter_append)
    with k show ?thesis by simp
  qed
  moreover have "timer_delay (presenceTimeout (config s)) =
       (if 1 \<le> presenceTimeout (config s) \<and> presenceTimeout (config s) \<le> 2 ^ 31 - 1
        then presenceTimeout (config s) else 1)"
    by (simp add: timer_delay_def)
  ultimately show ?thesis
    using in_range_check_restarts [of s now] absent_only_by_timer_or_force [of s t c]
    by blast
qed

text \<open>
  The theorem on the default options: presence detected at 500 ms, checks at 1000 and
  1500 ms; and, for the third part, on the object with a timeout of 100 ms, whose timer
  has fired by 1000 ms.
\<close>

theorem presence_debounce_witness:
  "objectPresent present_state
   \<and> presenceTimer present_state = Some \<lparr> fires_at = 30500, pending = True \<rparr>
   \<and> within_range [(1000, Check), (1200, Reading 60), (1500, Check)] present_state
   \<and> objectPresent (run [(1000, Check), (1200, Reading 60), (1500, Check)] present_state)
   \<and> presenceTimer (checkPresenceLogic 1000 present_state) = Some \<lparr> fires_at = 31000, pending = True \<rparr>
   \<and> objectPresent short_timeout_state
   \<and> \<not> objectPresent (step (1000, Reading 50) short_timeout_state)
   \<and> (\<exists>tm. presenceTimer short_timeout_state = Some tm \<and> pending tm \<and> fires_at tm \<le> 1000)"
proof -
  let ?cs = "[(1000, Check), (1200, Reading 60), (1500, Check)]"
  let ?tm = "\<lparr> fires_at = 30500, pending = True \<rparr>"
  have a: "objectPresent present_state" "presenceTimer present_state = Some ?tm" "pending ?tm"
    "in_range present_state" "presenceTimeout (config present_state) = 30000"
    by (simp_all add: present_state_def eval_defs)
  have b: "list_all (\<lambda>tc. reading_or_check (snd tc)) ?cs" by simp
  have c: "within_range ?cs present_state"
    by (simp add: present_state_def eval_defs)
  have d: "checks_in_time (timer_delay (presenceTimeout (config present_state))) (fires_at ?tm) ?cs"
    by (simp add: a(5) timer_delay_def)
  have e: "objectPresent short_timeout_state" "\<not> objectPresent (step (1000, Reading 50) short_timeout_state)"
    by (simp_all add: short_timeout_state_def eval_defs)
  show ?thesis
    using presence_debounce [where s = present_state and tm = ?tm and cs = ?cs and now = 1000]
      presence_debounce [where s = short_timeout_state and t = 1000 and c = "Reading 50"]
      a b c d e
    by (simp add: timer_delay_def)
qed

text \<open>
  Claim C3 as stated fails when \<open>presenceTimeout\<close> is shorter than the interval between
  checks. With \<open>presenceTimeout\<close> 100 and the default interval of 500 ms, presence is
  detected at 500 ms with a smoothed distance of 50, within the range of 100; the timer
  is due at 600 ms, so by the check at 1000 ms \<open>presenceTimeout\<close> has been emitted, with
  the smoothed distance within range all the time, and the check detects presence again.
\<close>

theorem presence_timeout_cex:
  "objectPresent short_timeout_state \<and> in_range short_timeout_state
   \<and> in_range (step (1000, Check) short_timeout_state)
   \<and> new_events short_timeout_state (step (1000, Check) short_timeout_state)
       = [PresenceTimeout False, PresenceDetected 50 100 False]"
  by (simp add: short_timeout_state_def eval_defs)

section \<open>Facts about GPIOController\<close>

lemma js_shl_1_32: "js_shl 1 32 = 1"
  by (simp add: js_shl_def)

lemma rollover_discarded:
  assumes "startTime s \<noteq> 0" and "endTime s \<noteq> 0" and "endTime s < startTime s"
  shows "calculateDistance s = s\<lparr>startTime := 0, endTime := 0\<rparr>"
proof -
  have "endTime s - startTime s + 1 \<le> 0" using assms(3) by simp
  then have "real_of_int ((endTime s - startTime s + 1) * 34300) \<le> 0"
    by (simp add: mult_le_0_iff)
  then have "\<not> 2 \<le> real_of_int ((endTime s - startTime s + 1) * 34300) / (2 * 1000000)"
    by (simp add: divide_le_0_iff)
  then show ?thesis
    using assms by (simp add: calculateDistance_def js_shl_1_32 Let_def)
qed

lemma no_rollover_distance:
  assumes "startTime s \<noteq> 0" and "endTime s \<noteq> 0" and "startTime s \<le> endTime s"
  shows "calculateDistance s =
           (let distance = real_of_int ((endTime s - startTime s) * 34300) / 2000000
            in if 2 \<le> distance \<and> distance \<le> 400
               then s\<lparr>gpio_currentDistance := distance,
                       gpio_emitted := gpio_emitted s @ [DistanceChanged distance],
                       startTime := 0, endTime := 0\<rparr>
               else s\<lparr>startTime := 0, endTime := 0\<rparr>)"
  using assms by (simp add: calculateDistance_def Let_def)

text \<open>
  Claim C8 against the code. The rollover branch adds \<open>1 << 32\<close>, which is 1 in
  JavaScript, not \<open>2^32\<close>. An echo that starts at tick 4294967000 and ends at tick 704,
  after the counter has wrapped, lasted 1000 microseconds, 17.15 cm by the claim's
  formula and within \<open>[2, 400]\<close>; the code computes a negative distance, leaves
  \<open>currentDistance\<close> at 999 and emits nothing.
\<close>

theorem rollover_measurement_lost:
  "js_shl 1 32 = 1
   \<and> echo_interrupt 0 704 rollover_state = rollover_state\<lparr>startTime := 0, endTime := 0\<rparr>
   \<and> gpio_currentDistance (echo_interrupt 0 704 rollover_state) = 999
   \<and> gpio_emitted (echo_interrupt 0 704 rollover_state) = []
   \<and> wrapped_distance 4294967000 704 = 1715 / 100"
  by (simp add: js_shl_1_32 echo_interrupt_def calculateDistance_def rollover_state_def
        wrapped_distance_def Let_def)

lemma assign_each_prefix:
  "assign_each k v ps = replicate (min k (length ps)) v @ drop k ps"
proof (induction k)
  case 0
  show ?case by (simp add: assign_each_def)
next
  case (Suc k)
  have "assign_each (Suc k) v ps =
          (let qs = assign_each k v ps in if k < length qs then qs[k := v] else qs)"
    by (simp add: assign_each_def)
  also have "\<dots> = replicate (min (Suc k) (length ps)) v @ drop (Suc k) ps"
  proof (cases "k < length ps")
    case True
    then have "(replicate k v @ drop k ps)[k := v] = replicate k v @ (drop k ps)[0 := v]"
      by (simp add: list_update_append)
    moreover have "(drop k ps)[0 := v] = v # drop (Suc k) ps"
      using True by (metis Cons_nth_drop_Suc list_update_code(2))
    ultimately show ?thesis using True Suc
      by (simp add: Let_def min_def replicate_append_same)
  next
    case False
    then show ?thesis using Suc by (simp add: Let_def min_def)
  qed
  finally show ?case .
qed

lemma assign_each_all: "length ps \<le> n \<Longrightarrow> assign_each n v ps = replicate (length ps) v"
  by (simp add: assign_each_prefix min_def)

lemma pack_color_word:
  "pack_color x y z = push_bit 16 (word_of_int x) OR push_bit 8 (word_of_int y) OR word_of_int z"
  by (simp add: pack_color_def js_bor_def js_shl_def or.assoc)

lemma channels_of_pack:
  assumes "0 \<le> c" and "c \<le> 255"
  shows "red_channel (pack_color c c c) = nat c"
    and "green_channel (pack_color c c c) = nat c"
    and "blue_channel (pack_color c c c) = nat c"
proof -
  define a :: "32 word" where "a = word_of_int c"
  have "take_bit 8 c = c"
    using assms by (simp add: take_bit_int_eq_self)
  then have tb: "take_bit 8 a = a"
    unfolding a_def by (metis take_bit_of_int)
  have m: "(255 :: 32 word) = mask 8" by (simp add: mask_eq_exp_minus_1)
  have bits: "bit a n \<Longrightarrow> n < 8" for n
    using tb by (metis bit_take_bit_iff)
  have "uint a = c"
    using assms by (simp add: a_def uint_word_of_int)
  then have ua: "unat a = nat c"
    by (simp add: unat_eq_nat_uint)
  have "drop_bit 16 (push_bit 16 a OR push_bit 8 a OR a) AND 255 = a"
    unfolding m by (rule bit_word_eqI) (auto simp add: bit_simps dest: bits)
  then show "red_channel (pack_color c c c) = nat c"
    by (simp add: red_channel_def pack_color_word a_def [symmetric] ua)
  have "drop_bit 8 (push_bit 16 a OR push_bit 8 a OR a) AND 255 = a"
    unfolding m by (rule bit_word_eqI) (auto simp add: bit_simps dest: bits)
  then show "green_channel (pack_color c c c) = nat c"
    by (simp add: green_channel_def pack_color_word a_def [symmetric] ua)
  have "(push_bit 16 a OR push_bit 8 a OR a) AND 255 = a"
    unfolding m by (rule bit_word_eqI) (auto simp add: bit_simps dest: bits)
  then show "blue_channel (pack_color c c c) = nat c"
    by (simp add: blue_channel_def pack_color_word a_def [symmetric] ua)
qed

lemma Math_round_channel:
  assumes "0 < p" and "p \<le> 100"
  shows "0 \<le> Math_round (255 * p / 100)" and "Math_round (255 * p / 100) \<le> 255"
proof -
  have "0 \<le> 255 * p / 100 + 1 / 2" using assms by simp
  then show "0 \<le> Math_round (255 * p / 100)" by (simp add: Math_round_def)
  have "255 * p / 100 + 1 / 2 < 256" using assms by simp
  then have "\<lfloor>255 * p / 100 + 1 / 2\<rfloor> < 256" by (simp add: floor_less_iff)
  then show "Math_round (255 * p / 100) \<le> 255" by (simp add: Math_round_def)
qed

lemma initialize_ready:
  "initialize fault s = Inr s' \<Longrightarrow> gpio_initialized s' \<and> strip_ready s'"
  by (auto simp add: initialize_def clearAllLEDs_def strip_ready_def Let_def
        split: if_splits hw_fault.splits)

lemma clamp_swap: "max 0 (min 100 x) = min 100 (max 0 (x::real))"
  by (simp add: min_def max_def)

lemma setLEDIntensity_unfold:
  assumes "gpio_initialized s"
  shows "setLEDIntensity x s =
           (if mockMode s then s\<lparr>currentLedIntensity := min 100 (max 0 x)\<rparr>
            else if min 100 (max 0 x) = 0
                 then clearAllLEDs (s\<lparr>currentLedIntensity := min 100 (max 0 x)\<rparr>)
                 else setStripColor 255 255 255 (min 100 (max 0 x))
                        (s\<lparr>currentLedIntensity := min 100 (max 0 x)\<rparr>))"
  unfolding setLEDIntensity_def clamp_swap using assms by (simp add: Let_def)

lemma clearAllLEDs_pixels:
  assumes "gpio_initialized s" and "\<not> mockMode s" and "pixels s = Some ps"
  shows "pixels (clearAllLEDs s) = Some (replicate (length ps) 0)"
    and "currentLedIntensity (clearAllLEDs s) = currentLedIntensity s"
  using assms by (simp_all add: clearAllLEDs_def Let_def map_replicate_const)

lemma setStripColor_pixels:
  assumes "gpio_initialized s" and "\<not> mockMode s" and "pixels s = Some ps"
    and "length ps = neopixelCount s"
  shows "pixels (setStripColor 255 255 255 p s) =
           Some (replicate (neopixelCount s)
                  (pack_color (scaled_white p) (scaled_white p) (scaled_white p)))"
    and "currentLedIntensity (setStripColor 255 255 255 p s) = currentLedIntensity s"
  using assms by (simp_all add: setStripColor_def scaled_white_def Let_def assign_each_all)

lemma clearAllLEDs_ready: "strip_ready s \<Longrightarrow> strip_ready (clearAllLEDs s)"
  by (auto simp add: clearAllLEDs_def strip_ready_def Let_def split: option.splits if_splits)

lemma setStripColor_ready: "strip_ready s \<Longrightarrow> strip_ready (setStripColor red green blue p s)"
  by (auto simp add: setStripColor_def strip_ready_def assign_each_prefix Let_def
        split: option.splits if_splits)

lemma echo_interrupt_ready: "strip_ready s \<Longrightarrow> strip_ready (echo_interrupt level tick s)"
  by (auto simp add: echo_interrupt_def calculateDistance_def strip_ready_def Let_def
        split: option.splits if_splits)

lemma setLEDIntensity_ready: "strip_ready s \<Longrightarrow> strip_ready (setLEDIntensity x s)"
  by (auto simp add: setLEDIntensity_def clearAllLEDs_def setStripColor_def strip_ready_def
        assign_each_prefix Let_def split: option.splits if_splits)

lemma setLEDIntensity_native:
  assumes "gpio_initialized s" and "strip_ready s"
  shows "currentLedIntensity (setLEDIntensity x s) = min 100 (max 0 x)"
    and "\<not> mockMode s \<Longrightarrow> min 100 (max 0 x) = 0 \<Longrightarrow>
           pixels (setLEDIntensity x s) = Some (replicate (neopixelCount s) 0)"
    and "\<not> mockMode s \<Longrightarrow> min 100 (max 0 x) \<noteq> 0 \<Longrightarrow>
           pixels (setLEDIntensity x s) =
             Some (replicate (neopixelCount s)
                    (pack_color (scaled_white (min 100 (max 0 x)))
                       (scaled_white (min 100 (max 0 x)))
                       (scaled_white (min 100 (max 0 x)))))"
    and "mockMode s \<Longrightarrow> pixels (setLEDIntensity x s) = pixels s"
proof -
  define cl where "cl = min 100 (max 0 x)"
  define s1 where "s1 = s\<lparr>currentLedIntensity := cl\<rparr>"
  have u: "setLEDIntensity x s =
             (if mockMode s then s1
              else if cl = 0 then clearAllLEDs s1 else setStripColor 255 255 255 cl s1)"
    unfolding cl_def s1_def by (rule setLEDIntensity_unfold [OF assms(1)])
  have s1: "gpio_initialized s1" "mockMode s1 = mockMode s" "pixels s1 = pixels s"
    "neopixelCount s1 = neopixelCount s" "currentLedIntensity s1 = cl"
    using assms(1) by (simp_all add: s1_def)
  show "mockMode s \<Longrightarrow> pixels (setLEDIntensity x s) = pixels s"
    by (simp add: u s1)
  have ps: "\<exists>ps. pixels s = Some ps \<and> length ps = neopixelCount s" if "\<not> mockMode s"
    using assms that by (auto simp add: strip_ready_def split: option.splits)
  show "currentLedIntensity (setLEDIntensity x s) = min 100 (max 0 x)"
  proof (cases "mockMode s")
    case True
    then show ?thesis by (simp add: u s1 cl_def)
  next
    case False
    then obtain ps where "pixels s = Some ps" "length ps = neopixelCount s" using ps by blast
    then show ?thesis
      using False clearAllLEDs_pixels(2) [of s1 ps] setStripColor_pixels(2) [of s1 ps cl]
      by (simp add: u s1 cl_def [symmetric])
  qed
  show "pixels (setLEDIntensity x s) = Some (replicate (neopixelCount s) 0)"
    if nm: "\<not> mockMode s" and z: "min 100 (max 0 x) = 0"
  proof -
    obtain ps where "pixels s = Some ps" "length ps = neopixelCount s" using ps nm by blast
    then show ?thesis
      using nm z clearAllLEDs_pixels(1) [of s1 ps] by (simp add: u s1 cl_def [symmetric])
  qed
  show "pixels (setLEDIntensity x s) =
             Some (replicate (neopixelCount s)
                    (pack_color (scaled_white (min 100 (max 0 x)))
                       (scaled_white (min 100 (max 0 x)))
                       (scaled_white (min 100 (max 0 x)))))"
    if nm: "\<not> mockMode s" and nz: "min 100 (max 0 x) \<noteq> 0"
  proof -
    obtain ps where "pixels s = Some ps" "length ps = neopixelCount s" using ps nm by blast
    then show ?thesis
      using nm nz setStripColor_pixels(1) [of s1 ps cl] by (simp add: u s1 cl_def [symmetric])
  qed
qed

lemma initialize_rgb_ready:
  "initialize_rgb fault s = Inr s' \<Longrightarrow> gpio_initialized s' \<and> strip_ready_rgb s'"
  by (auto simp add: initialize_rgb_def setupNeoPixelStrip_def setupMockNeoPixelStrip_def
        clearAllLEDs_rgb_def strip_ready_rgb_def assign_first_def Let_def
        split: if_splits)

lemma setLEDIntensity_rgb_unfold:
  assumes "gpio_initialized s"
  shows "setLEDIntensity_rgb x s =
           (if neopixelMockMode s then s\<lparr>currentLedIntensity := min 100 (max 0 x)\<rparr>
            else if min 100 (max 0 x) = 0
                 then clearAllLEDs_rgb (s\<lparr>currentLedIntensity := min 100 (max 0 x)\<rparr>)
                 else setStripColor_rgb 255 255 255 (min 100 (max 0 x))
                        (s\<lparr>currentLedIntensity := min 100 (max 0 x)\<rparr>))"
  unfolding setLEDIntensity_rgb_def clamp_swap using assms by (simp add: Let_def)

lemma clearAllLEDs_rgb_pixels:
  assumes "gpio_initialized s" and "\<not> neopixelMockMode s" and "led_pixels s = Some ps"
    and "length ps = neopixelCount s"
  shows "led_pixels (clearAllLEDs_rgb s) = Some (replicate (neopixelCount s) (LedRgb 0 0 0))"
    and "currentLedIntensity (clearAllLEDs_rgb s) = currentLedIntensity s"
  using assms by (simp_all add: clearAllLEDs_rgb_def assign_first_def Let_def)

lemma setStripColor_rgb_pixels:
  assumes "gpio_initialized s" and "\<not> neopixelMockMode s" and "led_pixels s = Some ps"
    and "length ps = neopixelCount s"
  shows "led_pixels (setStripColor_rgb 255 255 255 p s) =
           Some (replicate (neopixelCount s)
                  (LedRgb (scaled_white p) (scaled_white p) (scaled_white p)))"
    and "currentLedIntensity (setStripColor_rgb 255 255 255 p s) = currentLedIntensity s"
  using assms by (simp_all add: setStripColor_rgb_def assign_first_def scaled_white_def Let_def)

lemma clearAllLEDs_rgb_ready: "strip_ready_rgb s \<Longrightarrow> strip_ready_rgb (clearAllLEDs_rgb s)"
  by (auto simp add: clearAllLEDs_rgb_def strip_ready_rgb_def assign_first_def Let_def
        split: option.splits if_splits)

lemma setStripColor_rgb_ready:
  "strip_ready_rgb s \<Longrightarrow> strip_ready_rgb (setStripColor_rgb red green blue p s)"
  by (auto simp add: setStripColor_rgb_def strip_ready_rgb_def assign_first_def Let_def
        split: option.splits if_splits)

lemma setLEDIntensity_rgb_ready: "strip_ready_rgb s \<Longrightarrow> strip_ready_rgb (setLEDIntensity_rgb x s)"
  by (auto simp add: setLEDIntensity_rgb_def clearAllLEDs_rgb_def setStripColor_rgb_def
        strip_ready_rgb_def assign_first_def Let_def split: option.splits if_splits)

lemma setLEDIntensity_rgb_facts:
  assumes "gpio_initialized s" and "strip_ready_rgb s"
  shows "currentLedIntensity (setLEDIntensity_rgb x s) = min 100 (max 0 x)"
    and "\<not> neopixelMockMode s \<Longrightarrow> min 100 (max 0 x) = 0 \<Longrightarrow>
           led_pixels (setLEDIntensity_rgb x s) = Some (replicate (neopixelCount s) (LedRgb 0 0 0))"
    and "\<not> neopixelMockMode s \<Longrightarrow> min 100 (max 0 x) \<noteq> 0 \<Longrightarrow>
           led_pixels (setLEDIntensity_rgb x s) =
             Some (replicate (neopixelCount s)
                    (LedRgb (scaled_white (min 100 (max 0 x))) (scaled_white (min 100 (max 0 x)))
                       (scaled_white (min 100 (max 0 x)))))"
    and "neopixelMockMode s \<Longrightarrow> led_pixels (setLEDIntensity_rgb x s) = led_pixels s"
proof -
  define cl where "cl = min 100 (max 0 x)"
  define s1 where "s1 = s\<lparr>currentLedIntensity := cl\<rparr>"
  have u: "setLEDIntensity_rgb x s =
             (if neopixelMockMode s then s1
              else if cl = 0 then clearAllLEDs_rgb s1 else setStripColor_rgb 255 255 255 cl s1)"
    unfolding cl_def s1_def by (rule setLEDIntensity_rgb_unfold [OF assms(1)])
  have s1: "gpio_initialized s1" "neopixelMockMode s1 = neopixelMockMode s"
    "led_pixels s1 = led_pixels s" "neopixelCount s1 = neopixelCount s"
    "currentLedIntensity s1 = cl"
    using assms(1) by (simp_all add: s1_def)
  show "neopixelMockMode s \<Longrightarrow> led_pixels (setLEDIntensity_rgb x s) = led_pixels s"
    by (simp add: u s1)
  have ps: "\<exists>ps. led_pixels s = Some ps \<and> length ps = neopixelCount s"
    if "\<not> neopixelMockMode s"
    using assms that by (auto simp add: strip_ready_rgb_def split: option.splits)
  show "currentLedIntensity (setLEDIntensity_rgb x s) = min 100 (max 0 x)"
  proof (cases "neopixelMockMode s")
    case True
    then show ?thesis by (simp add: u s1 cl_def)
  next
    case False
    then obtain ps where "led_pixels s = Some ps" "length ps = neopixelCount s" using ps by blast
    then show ?thesis
      using False clearAllLEDs_rgb_pixels(2) [of s1 ps] setStripColor_rgb_pixels(2) [of s1 ps cl]
      by (simp add: u s1 cl_def [symmetric])
  qed
  show "led_pixels (setLEDIntensity_rgb x s) = Some (replicate (neopixelCount s) (LedRgb 0 0 0))"
    if nm: "\<not> neopixelMockMode s" and z: "min 100 (max 0 x) = 0"
  proof -
    obtain ps where "led_pixels s = Some ps" "length ps = neopixelCount s" using ps nm by blast
    then show ?thesis
      using nm z clearAllLEDs_rgb_pixels(1) [of s1 ps] by (simp add: u s1 cl_def [symmetric])
  qed
  show "led_pixels (setLEDIntensity_rgb x s) =
             Some (replicate (neopixelCount s)
                    (LedRgb (scaled_white (min 100 (max 0 x))) (scaled_white (min 100 (max 0 x)))
                       (scaled_white (min 100 (max 0 x)))))"
    if nm: "\<not> neopixelMockMode s" and nz: "min 100 (max 0 x) \<noteq> 0"
  proof -
    obtain ps where "led_pixels s = Some ps" "length ps = neopixelCount s" using ps nm by blast
    then show ?thesis
      using nm nz setStripColor_rgb_pixels(1) [of s1 ps cl] by (simp add: u s1 cl_def [symmetric])
  qed
qed

lemma scaled_white_channel:
  assumes "min 100 (max 0 x) \<noteq> 0"
  shows "0 \<le> scaled_white (min 100 (max 0 x))" and "scaled_white (min 100 (max 0 x)) \<le> 255"
proof -
  have "0 < min 100 (max 0 x)" "min 100 (max 0 x) \<le> 100"
    using assms by (simp_all add: min_def max_def split: if_splits)
  then show "0 \<le> scaled_white (min 100 (max 0 x))" and "scaled_white (min 100 (max 0 x)) \<le> 255"
    unfolding scaled_white_def by (rule Math_round_channel)+
qed

text \<open>
  Claim C10, as the code has it, for both versions of the class. On an initialized
  controller \<open>setLEDIntensity x\<close> leaves \<open>currentLedIntensity\<close> at \<open>min 100 (max 0 x)\<close>,
  within \<open>[0, 100]\<close>. Outside mock mode a clamped value of 0, and \<open>turnOffLEDs\<close>, set every
  pixel to off, and every other clamped value \<open>p\<close> sets every pixel to white at \<open>p\<close>
  percent: each of the three channels is \<open>Math.round(255 * p / 100)\<close>. In mock mode the
  pixel array is left as it is.
\<close>

theorem led_intensity_clamped:
  "(gpio_initialized s \<and> strip_ready s \<longrightarrow>
      currentLedIntensity (setLEDIntensity x s) = min 100 (max 0 x)
      \<and> 0 \<le> currentLedIntensity (setLEDIntensity x s)
      \<and> currentLedIntensity (setLEDIntensity x s) \<le> 100
      \<and> (\<not> mockMode s \<and> min 100 (max 0 x) = 0 \<longrightarrow>
            pixels (setLEDIntensity x s) = Some (replicate (neopixelCount s) 0))
      \<and> (\<not> mockMode s \<longrightarrow> pixels (turnOffLEDs s) = Some (replicate (neopixelCount s) 0))
      \<and> (\<not> mockMode s \<and> min 100 (max 0 x) \<noteq> 0 \<longrightarrow>
            (\<exists>px. pixels (setLEDIntensity x s) = Some (replicate (neopixelCount s) px)
                  \<and> red_channel px = nat (scaled_white (min 100 (max 0 x)))
                  \<and> green_channel px = nat (scaled_white (min 100 (max 0 x)))
                  \<and> blue_channel px = nat (scaled_white (min 100 (max 0 x)))))
      \<and> (mockMode s \<longrightarrow> pixels (setLEDIntensity x s) = pixels s))
   \<and> (gpio_initialized t \<and> strip_ready_rgb t \<longrightarrow>
      currentLedIntensity (setLEDIntensity_rgb x t) = min 100 (max 0 x)
      \<and> 0 \<le> currentLedIntensity (setLEDIntensity_rgb x t)
      \<and> currentLedIntensity (setLEDIntensity_rgb x t) \<le> 100
      \<and> (\<not> neopixelMockMode t \<and> min 100 (max 0 x) = 0 \<longrightarrow>
            led_pixels (setLEDIntensity_rgb x t) = Some (replicate (neopixelCount t) (LedRgb 0 0 0)))
      \<and> (\<not> neopixelMockMode t \<longrightarrow>
            led_pixels (turnOffLEDs_rgb t) = Some (replicate (neopixelCount t) (LedRgb 0 0 0)))
      \<and> (\<not> neopixelMockMode t \<and> min 100 (max 0 x) \<noteq> 0 \<longrightarrow>
            led_pixels (setLEDIntensity_rgb x t) =
              Some (replicate (neopixelCount t)
                     (LedRgb (scaled_white (min 100 (max 0 x))) (scaled_white (min 100 (max 0 x)))
                        (scaled_white (min 100 (max 0 x))))))
      \<and> (neopixelMockMode t \<longrightarrow> led_pixels (setLEDIntensity_rgb x t) = led_pixels t))"
proof (intro conjI impI)
  assume h: "gpio_initialized s \<and> strip_ready s"
  then have i: "gpio_initialized s" and r: "strip_ready s" by simp_all
  show "currentLedIntensity (setLEDIntensity x s) = min 100 (max 0 x)"
    by (rule setLEDIntensity_native(1) [OF i r])
  then show "0 \<le> currentLedIntensity (setLEDIntensity x s)"
    and "currentLedIntensity (setLEDIntensity x s) \<le> 100"
    by simp_all
  show "pixels (setLEDIntensity x s) = Some (replicate (neopixelCount s) 0)"
    if "\<not> mockMode s \<and> min 100 (max 0 x) = 0"
    using setLEDIntensity_native(2) [OF i r] that by blast
  show "pixels (turnOffLEDs s) = Some (replicate (neopixelCount s) 0)" if "\<not> mockMode s"
    unfolding turnOffLEDs_def using setLEDIntensity_native(2) [OF i r that, of 0] by simp
  show "\<exists>px. pixels (setLEDIntensity x s) = Some (replicate (neopixelCount s) px)
                  \<and> red_channel px = nat (scaled_white (min 100 (max 0 x)))
                  \<and> green_channel px = nat (scaled_white (min 100 (max 0 x)))
                  \<and> blue_channel px = nat (scaled_white (min 100 (max 0 x)))"
    if k: "\<not> mockMode s \<and> min 100 (max 0 x) \<noteq> 0"
  proof -
    from k have nm: "\<not> mockMode s" and nz: "min 100 (max 0 x) \<noteq> 0" by simp_all
    note px = setLEDIntensity_native(3) [OF i r nm nz]
    note ch = channels_of_pack [OF scaled_white_channel [OF nz]]
    show ?thesis
      using px ch by blast
  qed
  show "pixels (setLEDIntensity x s) = pixels s" if "mockMode s"
    by (rule setLEDIntensity_native(4) [OF i r that])
next
  assume h: "gpio_initialized t \<and> strip_ready_rgb t"
  then have i: "gpio_initialized t" and r: "strip_ready_rgb t" by simp_all
  show "currentLedIntensity (setLEDIntensity_rgb x t) = min 100 (max 0 x)"
    by (rule setLEDIntensity_rgb_facts(1) [OF i r])
  then show "0 \<le> currentLedIntensity (setLEDIntensity_rgb x t)"
    and "currentLedIntensity (setLEDIntensity_rgb x t) \<le> 100"
    by simp_all
  show "led_pixels (setLEDIntensity_rgb x t) = Some (replicate (neopixelCount t) (LedRgb 0 0 0))"
    if "\<not> neopixelMockMode t \<and> min 100 (max 0 x) = 0"
    using setLEDIntensity_rgb_facts(2) [OF i r] that by blast
  show "led_pixels (turnOffLEDs_rgb t) = Some (replicate (neopixelCount t) (LedRgb 0 0 0))"
    if "\<not> neopixelMockMode t"
    unfolding turnOffLEDs_rgb_def using setLEDIntensity_rgb_facts(2) [OF i r that, of 0] by simp
  show "led_pixels (setLEDIntensity_rgb x t) =
              Some (replicate (neopixelCount t)
                     (LedRgb (scaled_white (min 100 (max 0 x))) (scaled_white (min 100 (max 0 x)))
                        (scaled_white (min 100 (max 0 x)))))"
    if "\<not> neopixelMockMode t \<and> min 100 (max 0 x) \<noteq> 0"
    using setLEDIntensity_rgb_facts(3) [OF i r] that by blast
  show "led_pixels (setLEDIntensity_rgb x t) = led_pixels t" if "neopixelMockMode t"
    by (rule setLEDIntensity_rgb_facts(4) [OF i r that])
qed

text \<open>
  The theorem on the controllers that the constructors and \<open>initialize\<close> give with all
  libraries and no fault, at an intensity of 150.
\<close>

theorem led_intensity_clamped_witness:
  "gpio_initialized ready_native \<and> strip_ready ready_native \<and> \<not> mockMode ready_native
   \<and> currentLedIntensity (setLEDIntensity 150 ready_native) = 100
   \<and> pixels (turnOffLEDs ready_native) = Some (replicate 30 0)
   \<and> gpio_initialized ready_rgb \<and> strip_ready_rgb ready_rgb \<and> \<not> neopixelMockMode ready_rgb
   \<and> currentLedIntensity (setLEDIntensity_rgb 150 ready_rgb) = 100
   \<and> led_pixels (setLEDIntensity_rgb 150 ready_rgb) = Some (replicate 10 (LedRgb 255 255 255))
   \<and> initialize NoFault (projr (GPIOController no_gpio_options True)) = Inr ready_native
   \<and> initialize_rgb NoFault (GPIOController_rgb no_gpio_options True True) = Inr ready_rgb"
proof -
  have a: "gpio_initialized ready_native" "strip_ready ready_native" "\<not> mockMode ready_native"
    "neopixelCount ready_native = 30"
    by (simp_all add: ready_native_def strip_ready_def)
  have b: "gpio_initialized ready_rgb" "strip_ready_rgb ready_rgb" "\<not> neopixelMockMode ready_rgb"
    "neopixelCount ready_rgb = 10"
    by (simp_all add: ready_rgb_def strip_ready_rgb_def)
  have c: "scaled_white 100 = 255" by (simp add: scaled_white_def Math_round_def)
  have d: "initialize NoFault (projr (GPIOController no_gpio_options True)) = Inr ready_native"
    by (simp add: GPIOController_def no_gpio_options_def initialize_def clearAllLEDs_def
          ready_native_def Let_def)
  have e: "initialize_rgb NoFault (GPIOController_rgb no_gpio_options True True) = Inr ready_rgb"
    by (simp add: GPIOController_rgb_def no_gpio_options_def initialize_rgb_def
          setupNeoPixelStrip_def clearAllLEDs_rgb_def ready_rgb_def Let_def)
  show ?thesis
    using led_intensity_clamped [of ready_native 150 ready_rgb] a b c d e by simp
qed

text \<open>
  Claim C10 as stated fails in mock mode. When \<open>rpi-ws281x\<close> does not load, \<open>initialize\<close>
  gives a mock strip of ten entries 0; \<open>setLEDIntensity 50\<close> then records the
  intensity 50 and returns, and the entries stay 0 instead of white at 50 percent, whose
  channels are 128.
\<close>

theorem led_mock_cex:
  "initialize_rgb NoFault (GPIOController_rgb no_gpio_options True False) = Inr mock_strip
   \<and> gpio_initialized mock_strip
   \<and> currentLedIntensity (setLEDIntensity_rgb 50 mock_strip) = 50
   \<and> led_pixels (setLEDIntensity_rgb 50 mock_strip) = Some (replicate 10 LedZero)
   \<and> scaled_white 50 = 128"
  by (simp add: GPIOController_rgb_def no_gpio_options_def initialize_rgb_def
        setupMockNeoPixelStrip_def mock_strip_def setLEDIntensity_rgb_def scaled_white_def
        Math_round_def Let_def)

section \<open>Facts about the configuration server\<close>

lemma validate_examples:
  "validateConfiguration (Some (JObj [(''ledIntensity'', JNum 150)])) = Inr False"
  "validateConfiguration (Some (JObj [(''ledIntensity'', JNum 50), (''showTime'', JBool True)])) = Inr True"
  "validateConfiguration (Some JNull) = Inl TypeError"
  "validateConfiguration (Some (JArr [JNum 1])) = Inr True"
  "validateConfiguration None = Inr False"
  by (simp_all add: validateConfiguration_def hasOwnProperty_def get_property_def out_of_range_def)

text \<open>
  Claim C4. When \<open>validateConfiguration\<close> returns false for the body of a
  \<open>POST /api/config\<close>, the answer has status 400 and \<open>success: false\<close>, and the helper is
  as before: the file is not written, and \<open>loadConfiguration\<close> gives what it gave
  before.
\<close>

theorem invalid_config_rejected:
  assumes "validateConfiguration body = Inr False"
  shows "post_config stringify now body h =
           (\<lparr>status = 400, success = False, reply = Message ''Invalid configuration format''\<rparr>, h)
         \<and> config_file (snd (post_config stringify now body h)) = config_file h
         \<and> loadConfiguration parse (snd (post_config stringify now body h)) = loadConfiguration parse h"
  using assms by (simp add: post_config_def loadConfiguration_def)

text \<open>The theorem at a body whose \<open>ledIntensity\<close> is 150, with no file on disk.\<close>

theorem invalid_config_rejected_witness:
  "validateConfiguration (Some (JObj [(''ledIntensity'', JNum 150)])) = Inr False
   \<and> status (fst (post_config id ''2024-01-01T00:00:00.000Z''
                     (Some (JObj [(''ledIntensity'', JNum 150)])) idle_helper)) = 400
   \<and> \<not> success (fst (post_config id ''2024-01-01T00:00:00.000Z''
                     (Some (JObj [(''ledIntensity'', JNum 150)])) idle_helper))
   \<and> config_file (snd (post_config id ''2024-01-01T00:00:00.000Z''
                     (Some (JObj [(''ledIntensity'', JNum 150)])) idle_helper)) = Missing"
proof -
  have v: "validateConfiguration (Some (JObj [(''ledIntensity'', JNum 150)])) = Inr False"
    by (simp add: validate_examples)
  have m: "config_file idle_helper = Missing" by (simp add: idle_helper_def)
  show ?thesis
    using invalid_config_rejected [OF v, of id "''2024-01-01T00:00:00.000Z''" idle_helper Some] v m
    by simp
qed

lemma map_of_set_property: "map_of (set_property name v ps) = (map_of ps)(name \<mapsto> v)"
  by (induction ps) (auto simp add: fun_eq_iff)

lemma get_property_configToSave:
  "get_property (configToSave c now) name =
     (if name = ''lastUpdated'' then Some (JStr now) else get_property c name)"
  by (simp add: get_property_def configToSave_def map_of_set_property)

lemma map_of_written:
  "map_of (map (map_prod id written_value) fs) name = map_option written_value (map_of fs name)"
  by (induction fs) auto

lemma get_property_written_object:
  "get_property (written_value (JObj fs)) name = map_option written_value (get_property (JObj fs) name)"
  by (simp add: get_property_def map_of_written)

lemma written_unchanged: "\<not> holds_infinity v \<Longrightarrow> written_value v = v"
proof (induction v)
  case (JArr xs)
  then show ?case by (auto simp add: map_idI)
next
  case (JObj fs)
  have "map_prod id written_value p = p" if "p \<in> set fs" for p
  proof -
    obtain a b where p: "p = (a, b)" by (cases p)
    have "\<not> holds_infinity b" using JObj.prems that p by force
    then have "written_value b = b" using JObj.IH [of p b] that p by simp
    then show ?thesis using p by simp
  qed
  then show ?case by (simp add: map_idI)
qed simp_all

lemma parse_stringify: "JSON_parse (JSON_stringify v) = Some (written_value v)"
  by (simp add: JSON_stringify_def)

text \<open>
  Claim C5, as the code has it. When \<open>saveConfiguration c\<close> succeeds, the next
  \<open>loadConfiguration\<close> returns the object that was written: its \<open>lastUpdated\<close> is the time
  of the save, and every other property is the property of \<open>c\<close> as \<open>JSON.stringify\<close>
  writes it, which is the property of \<open>c\<close> itself when that holds no infinity, and has
  \<open>null\<close> in the place of each infinity otherwise. When the file is missing, unreadable
  or does not parse, \<open>loadConfiguration\<close> returns the default configuration.
\<close>

theorem save_then_load:
  "(saveConfiguration JSON_stringify now c h = Inr h' \<longrightarrow>
      loadConfiguration JSON_parse h' = written_value (configToSave c now)
      \<and> typeof (Some (loadConfiguration JSON_parse h')) = TObject
      \<and> get_property (loadConfiguration JSON_parse h') ''lastUpdated'' = Some (JStr now)
      \<and> (\<forall>name. name \<noteq> ''lastUpdated'' \<longrightarrow>
            get_property (loadConfiguration JSON_parse h') name
              = map_option written_value (get_property c name))
      \<and> (\<forall>name v. name \<noteq> ''lastUpdated'' \<and> get_property c name = Some v
              \<and> \<not> holds_infinity v \<longrightarrow>
            get_property (loadConfiguration JSON_parse h') name = Some v))
   \<and> (config_file h = Missing \<or> config_file h = Unreadable
        \<or> (\<exists>text. config_file h = Holding text \<and> JSON_parse text = None)
       \<longrightarrow> loadConfiguration JSON_parse h = default_configuration)"
proof (intro conjI impI)
  assume a: "saveConfiguration JSON_stringify now c h = Inr h'"
  then have "config_file h' = Holding (JSON_stringify (configToSave c now))"
    by (auto simp add: saveConfiguration_def split: if_splits)
  then show l: "loadConfiguration JSON_parse h' = written_value (configToSave c now)"
    by (simp add: loadConfiguration_def parse_stringify)
  show "typeof (Some (loadConfiguration JSON_parse h')) = TObject"
    by (simp add: l configToSave_def)
  have g: "get_property (loadConfiguration JSON_parse h') name
             = map_option written_value (get_property (configToSave c now) name)" for name
    unfolding l configToSave_def by (rule get_property_written_object)
  show "get_property (loadConfiguration JSON_parse h') ''lastUpdated'' = Some (JStr now)"
    by (simp add: g get_property_configToSave)
  show o: "\<forall>name. name \<noteq> ''lastUpdated'' \<longrightarrow>
            get_property (loadConfiguration JSON_parse h') name
              = map_option written_value (get_property c name)"
    by (simp add: g get_property_configToSave)
  show "\<forall>name v. name \<noteq> ''lastUpdated'' \<and> get_property c name = Some v
              \<and> \<not> holds_infinity v \<longrightarrow>
            get_property (loadConfiguration JSON_parse h') name = Some v"
    using o by (simp add: written_unchanged)
next
  assume "config_file h = Missing \<or> config_file h = Unreadable
        \<or> (\<exists>text. config_file h = Holding text \<and> JSON_parse text = None)"
  then show "loadConfiguration JSON_parse h = default_configuration"
    by (auto simp add: loadConfiguration_def)
qed

text \<open>
  The theorem at a configuration with \<open>showTime: false\<close>, which is read back as it is,
  and at the missing file.
\<close>

theorem save_then_load_witness:
  "saveConfiguration JSON_stringify ''today'' stale_config fresh_helper
     = Inr (fresh_helper\<lparr>config_file := Holding (JSON_stringify (configToSave stale_config ''today''))\<rparr>)
   \<and> get_property stale_config ''showTime'' = Some (JBool False)
   \<and> \<not> holds_infinity (JBool False)
   \<and> get_property (loadConfiguration JSON_parse
        (fresh_helper\<lparr>config_file := Holding (JSON_stringify (configToSave stale_config ''today''))\<rparr>))
        ''showTime''
       = Some (JBool False)
   \<and> config_file fresh_helper = Missing
   \<and> loadConfiguration JSON_parse fresh_helper = default_configuration"
proof -
  let ?h = "fresh_helper\<lparr>config_file := Holding (JSON_stringify (configToSave stale_config ''today''))\<rparr>"
  have s: "saveConfiguration JSON_stringify ''today'' stale_config fresh_helper = Inr ?h"
    by (simp add: saveConfiguration_def fresh_helper_def)
  have m: "config_file fresh_helper = Missing" by (simp add: fresh_helper_def)
  have g: "get_property stale_config ''showTime'' = Some (JBool False)"
    by (simp add: get_property_def stale_config_def)
  have n: "\<not> holds_infinity (JBool False)" by simp
  note t = save_then_load [of "''today''" stale_config fresh_helper ?h]
  note a = t [THEN conjunct1, THEN mp, OF s]
  note b = a [THEN conjunct2, THEN conjunct2, THEN conjunct2, THEN conjunct2,
      THEN spec, THEN spec, THEN mp]
  have r: "get_property (loadConfiguration JSON_parse ?h) ''showTime'' = Some (JBool False)"
    by (rule b) (simp add: g)
  have d: "loadConfiguration JSON_parse fresh_helper = default_configuration"
    by (rule t [THEN conjunct2, THEN mp]) (simp add: m)
  show ?thesis
    by (intro conjI) (fact s g n r m d)+
qed

text \<open>
  Claim C5 as stated fails on a configuration that has a \<open>lastUpdated\<close> property of its
  own, as every configuration read from the file has: the saved object carries the time
  of the save there, not the value of \<open>c\<close>. It also fails on a number beyond the range
  of a double: a \<open>motionTimeout\<close> of \<open>1e999\<close> is infinity in the body, passes
  \<open>validateConfiguration\<close>, and is read back as \<open>null\<close>.
\<close>

theorem save_then_load_cex:
  "validateConfiguration (Some stale_config) = Inr True
   \<and> saveConfiguration JSON_stringify ''today'' stale_config fresh_helper
       = Inr (fresh_helper\<lparr>config_file := Holding (JSON_stringify (configToSave stale_config ''today''))\<rparr>)
   \<and> get_property stale_config ''lastUpdated'' = Some (JStr ''yesterday'')
   \<and> get_property (loadConfiguration JSON_parse
        (fresh_helper\<lparr>config_file := Holding (JSON_stringify (configToSave stale_config ''today''))\<rparr>))
        ''lastUpdated''
       = Some (JStr ''today'')
   \<and> get_property stale_config ''motionTimeout'' = Some JPosInfinity
   \<and> get_property (loadConfiguration JSON_parse
        (fresh_helper\<lparr>config_file := Holding (JSON_stringify (configToSave stale_config ''today''))\<rparr>))
        ''motionTimeout''
       = Some JNull"
  by (simp add: validateConfiguration_def hasOwnProperty_def out_of_range_def
        saveConfiguration_def fresh_helper_def loadConfiguration_def configToSave_def
        JSON_stringify_def stale_config_def get_property_def)

section \<open>Facts about the messages to the Python application\<close>

text \<open>
  Claim C7, as the code has it. \<open>sendConfigurationToPython\<close> returns true exactly when the
  process exists, has reported ready, and building and writing the message raises
  nothing. It then has written one chunk to the standard input of the process: the JSON
  text of the message, of type \<open>config_update\<close> and carrying the configuration as
  \<open>data\<close>, followed by a newline. When it returns false the helper and the process are as
  before.
\<close>

theorem send_config_to_python:
  "fst (sendConfigurationToPython stringify now cfg h) =
     (\<exists>p. pythonProcess h = Some p \<and> pythonAppReady h \<and> \<not> write_throws p)
   \<and> (fst (sendConfigurationToPython stringify now cfg h) \<longrightarrow>
         written (snd (sendConfigurationToPython stringify now cfg h)) =
           written h @ [stringify (config_update_message cfg now) @ [CHR 0x0A]]
         \<and> pythonAppReady (snd (sendConfigurationToPython stringify now cfg h)))
   \<and> (\<not> fst (sendConfigurationToPython stringify now cfg h) \<longrightarrow>
         snd (sendConfigurationToPython stringify now cfg h) = h)
   \<and> get_property (config_update_message cfg now) ''type'' = Some (JStr ''config_update'')
   \<and> get_property (config_update_message cfg now) ''data'' = cfg"
  by (cases cfg)
     (auto simp add: sendConfigurationToPython_def written_def config_update_message_def
        get_property_def split: option.splits)

text \<open>The theorem on a ready process that takes the write, and on one that is not ready.\<close>

theorem send_config_to_python_witness:
  "fst (sendConfigurationToPython empty_text ''now'' (Some JNull)
          (broken_pipe_helper\<lparr>pythonProcess := Some \<lparr> stdin_chunks = [], write_throws = False \<rparr>\<rparr>))
   \<and> written (snd (sendConfigurationToPython empty_text ''now'' (Some JNull)
          (broken_pipe_helper\<lparr>pythonProcess := Some \<lparr> stdin_chunks = [], write_throws = False \<rparr>\<rparr>)))
       = [''{}'' @ [CHR 0x0A]]
   \<and> \<not> fst (sendConfigurationToPython empty_text ''now'' (Some JNull)
          (broken_pipe_helper\<lparr>pythonAppReady := False\<rparr>))
   \<and> snd (sendConfigurationToPython empty_text ''now'' (Some JNull)
          (broken_pipe_helper\<lparr>pythonAppReady := False\<rparr>))
       = broken_pipe_helper\<lparr>pythonAppReady := False\<rparr>"
proof -
  let ?ok = "broken_pipe_helper\<lparr>pythonProcess := Some \<lparr> stdin_chunks = [], write_throws = False \<rparr>\<rparr>"
  let ?off = "broken_pipe_helper\<lparr>pythonAppReady := False\<rparr>"
  have a: "\<exists>p. pythonProcess ?ok = Some p \<and> pythonAppReady ?ok \<and> \<not> write_throws p"
    by (simp add: broken_pipe_helper_def)
  have b: "\<not> (\<exists>p. pythonProcess ?off = Some p \<and> pythonAppReady ?off \<and> \<not> write_throws p)"
    by (simp add: broken_pipe_helper_def)
  have w: "written ?ok = []" by (simp add: written_def broken_pipe_helper_def)
  show ?thesis
    using send_config_to_python [of empty_text "''now''" "Some JNull" ?ok]
      send_config_to_python [of empty_text "''now''" "Some JNull" ?off] a b w
    by (simp add: empty_text_def)
qed

text \<open>
  Claim C7 as stated fails when the write raises: the process exists and has reported
  ready, and the function returns false.
\<close>

theorem send_config_to_python_cex:
  "pythonProcess broken_pipe_helper \<noteq> None \<and> pythonAppReady broken_pipe_helper
   \<and> \<not> fst (sendConfigurationToPython empty_text ''now'' (Some JNull) broken_pipe_helper)
   \<and> written (snd (sendConfigurationToPython empty_text ''now'' (Some JNull) broken_pipe_helper)) = []"
  by (simp add: sendConfigurationToPython_def broken_pipe_helper_def written_def)

section \<open>Facts about the module's DOM\<close>











end
